theory Spec2Isabelle
  imports Complex_Main
begin

section \<open>JavaScript values and string operations used by the services\<close>

text \<open>
  Strings are \<^typ>\<open>string\<close>; the source's string operations are written out for the
  ASCII range (a character outside it is a sequence of bytes that none of the operations
  below inspects). Values typed \<open>any\<close> in the source are JSON values; a number is the
  value \<open>JSON.parse\<close> produced.
\<close>

datatype json =
    JNull
  | JBool bool
  | JNum rat
  | JStr string
  | JArr "json list"
  | JObj "(string \<times> json) list"

text \<open>Truthiness of a value, as \<open>!v\<close>, \<open>v || d\<close> and \<open>if (v)\<close> test it.\<close>

fun js_truthy :: "json \<Rightarrow> bool" where
  "js_truthy JNull = False"
| "js_truthy (JBool b) = b"
| "js_truthy (JNum n) = (n \<noteq> 0)"
| "js_truthy (JStr s) = (s \<noteq> [])"
| "js_truthy (JArr xs) = True"
| "js_truthy (JObj fs) = True"

text \<open>\<open>xs.join(sep)\<close> on an array of strings.\<close>

fun join :: "string \<Rightarrow> string list \<Rightarrow> string" where
  "join sep [] = []"
| "join sep [x] = x"
| "join sep (x # y # ys) = x @ sep @ join sep (y # ys)"

text \<open>
  \<open>s.split('\n')\<close>: the pieces between the separators, separators dropped; the empty
  string gives one empty piece. \<open>split_on c s acc\<close> carries the piece being read.
\<close>

fun split_on :: "char \<Rightarrow> string \<Rightarrow> string \<Rightarrow> string list" where
  "split_on c [] acc = [acc]"
| "split_on c (x # xs) acc =
     (if x = c then acc # split_on c xs [] else split_on c xs (acc @ [x]))"

definition split_str :: "char \<Rightarrow> string \<Rightarrow> string list" where
  "split_str c s = split_on c s []"

definition startsWith :: "string \<Rightarrow> string \<Rightarrow> bool" where
  "startsWith s p = (take (length p) s = p)"

fun includes_str :: "string \<Rightarrow> string \<Rightarrow> bool" where
  "includes_str [] p = (p = [])"
| "includes_str (c # cs) p = (startsWith (c # cs) p \<or> includes_str cs p)"

definition is_space :: "char \<Rightarrow> bool" where
  "is_space c = (c \<in> set [CHR '' '', CHR 0x09, CHR ''\<newline>'', CHR 0x0B, CHR 0x0C, CHR 0x0D])"

definition trim :: "string \<Rightarrow> string" where
  "trim s = rev (dropWhile is_space (rev (dropWhile is_space s)))"

definition upper_char :: "char \<Rightarrow> char" where
  "upper_char c =
     (let n = (of_char c :: nat) in if 97 \<le> n \<and> n \<le> 122 then char_of (n - 32) else c)"

definition toUpperCase :: "string \<Rightarrow> string" where
  "toUpperCase s = map upper_char s"

text \<open>The decimal text of a non-negative integer, as a template literal prints it.\<close>

function string_of_nat :: "nat \<Rightarrow> string" where
  "string_of_nat n =
     (if n < 10 then [char_of (48 + n)]
      else string_of_nat (n div 10) @ [char_of (48 + n mod 10)])"
  by pat_completeness auto
termination
  by (relation "measure id") auto

declare string_of_nat.simps [simp del]

section \<open>The notebook document model (jupyter-notebook-service.ts)\<close>

text \<open>
  The interfaces of the source become records. Field names carry a short prefix for their
  record (\<open>o_\<close> output, \<open>c_\<close> persisted cell, \<open>i_\<close> in-memory cell, \<open>r_\<close> execution
  result), since several interfaces share field names. An optional field (\<open>f?:\<close>) or a
  field the code tests for presence is an \<open>option\<close>; a count is a natural number.
\<close>

datatype output_type = Execute_result | Display_data | Stream | Error

datatype stream_name = Stdout | Stderr

text \<open>A field typed \<open>string | string[]\<close>.\<close>

datatype text_value = Text string | Lines "string list"

text \<open>
  The \<open>data\<close> mapping of an output: the MIME types the interface names, and the index
  signature's further entries.
\<close>

record output_data =
  text_plain :: "text_value option"
  text_html :: "text_value option"
  image_png :: "string option"
  image_jpeg :: "string option"
  image_svg_xml :: "text_value option"
  application_json :: "json option"
  other_mime :: "(string \<times> json) list"

record NotebookOutput =
  o_output_type :: output_type
  o_execution_count :: "nat option"
  o_data :: "output_data option"
  o_text :: "text_value option"
  o_name :: "stream_name option"
  o_ename :: "string option"
  o_evalue :: "string option"
  o_traceback :: "string list option"

datatype cell_type = Code | Markdown | Raw

text \<open>
  Cell metadata is \<open>Record<string, any>\<close>; \<open>detectLanguage\<close> returns its \<open>language\<close> entry
  as a string, so that entry is a string here and the others are arbitrary values.
\<close>

record cell_metadata =
  md_language :: "string option"
  md_entries :: "(string \<times> json) list"

record NotebookCell =
  c_cell_type :: cell_type
  c_execution_count :: "nat option"
  c_id :: "string option"
  c_metadata :: "cell_metadata option"
  c_source :: "text_value option"
  c_outputs :: "NotebookOutput list option"

record kernelspec =
  ks_display_name :: string
  ks_language :: string
  ks_name :: string

record language_info =
  li_name :: string
  li_version :: string
  li_mimetype :: "string option"
  li_file_extension :: "string option"

record notebook_metadata =
  nm_kernelspec :: "kernelspec option"
  nm_language_info :: "language_info option"
  nm_entries :: "(string \<times> json) list"

record JupyterNotebook =
  nb_cells :: "NotebookCell list"
  nb_metadata :: "notebook_metadata option"
  nb_nbformat :: rat
  nb_nbformat_minor :: rat

text \<open>The in-memory cell of \<open>notebookToCells\<close> and \<open>cellsToNotebook\<close>.\<close>

datatype internal_type = TCode | TMarkdown

record cell =
  i_id :: string
  i_type :: internal_type
  i_language :: string
  i_content :: string
  i_executionCount :: "nat option"
  i_outputs :: "NotebookOutput list option"
  i_metadata :: "cell_metadata option"

subsection \<open>Source normalisation\<close>

text \<open>
  \<open>Array.isArray(source) ? source.join('') : (source || '')\<close>; an absent source gives the
  empty string.
\<close>

fun normalizeSource :: "text_value option \<Rightarrow> string" where
  "normalizeSource (Some (Lines ls)) = join [] ls"
| "normalizeSource (Some (Text s)) = (if s \<noteq> [] then s else [])"
| "normalizeSource None = []"

subsection \<open>parseNotebook\<close>

text \<open>
  \<open>parseNotebook\<close> validates two top-level fields of what \<open>JSON.parse\<close> returned and trusts
  the cast to \<open>JupyterNotebook\<close> for the rest. The model takes the outcome of \<open>JSON.parse\<close>
  as its input: a syntax error with its message, the value \<open>null\<close>, or a value with the
  fields below (a parsed number, string, boolean or array has none of them). The \<open>cells\<close>
  field is untyped: it is absent, or holds a value that is not an array (\<open>null\<close>, a boolean,
  a number, a string or an object), or holds an array, whose elements the cast takes to be
  cells.
\<close>

datatype non_array =
    NNull
  | NBool bool
  | NNum rat
  | NStr string
  | NObj "(string \<times> json) list"

fun non_array_truthy :: "non_array \<Rightarrow> bool" where
  "non_array_truthy NNull = False"
| "non_array_truthy (NBool b) = b"
| "non_array_truthy (NNum n) = (n \<noteq> 0)"
| "non_array_truthy (NStr s) = (s \<noteq> [])"
| "non_array_truthy (NObj fs) = True"

datatype cells_field = CellsAbsent | CellsValue non_array | CellsArray "NotebookCell list"

record parsed_notebook =
  p_cells :: cells_field
  p_metadata :: "notebook_metadata option"
  p_nbformat :: "rat option"
  p_nbformat_minor :: "rat option"

datatype json_parse = SyntaxError string | ParsedNull | Parsed parsed_notebook

fun cells_truthy :: "cells_field \<Rightarrow> bool" where
  "cells_truthy CellsAbsent = False"
| "cells_truthy (CellsValue v) = non_array_truthy v"
| "cells_truthy (CellsArray cs) = True"

text \<open>\<open>Array.isArray(notebook.cells)\<close>\<close>

fun cells_isArray :: "cells_field \<Rightarrow> bool" where
  "cells_isArray (CellsArray cs) = True"
| "cells_isArray (CellsValue v) = False"
| "cells_isArray CellsAbsent = False"

text \<open>\<open>!notebook.nbformat || notebook.nbformat < 4\<close>\<close>

fun version_unsupported :: "rat option \<Rightarrow> bool" where
  "version_unsupported None = True"
| "version_unsupported (Some n) = (n = 0 \<or> n < 4)"

definition normalize_cell :: "NotebookCell \<Rightarrow> NotebookCell" where
  "normalize_cell c = c\<lparr>c_source := Some (Text (normalizeSource (c_source c)))\<rparr>"

text \<open>
  Every failure inside the \<open>try\<close> is rethrown as an \<open>Error\<close> whose message is
  \<open>Failed to parse notebook: \<close> followed by the message of the failure. The message of the
  \<open>TypeError\<close> that reading a property of \<open>null\<close> raises is the engine's.
\<close>

definition failed_to_parse :: "string \<Rightarrow> string" where
  "failed_to_parse m = ''Failed to parse notebook: '' @ m"

definition null_cells_message :: string where
  "null_cells_message = ''Cannot read properties of null (reading 'cells')''"

definition parseNotebook :: "json_parse \<Rightarrow> string + parsed_notebook" where
  "parseNotebook jp =
     (case jp of
        SyntaxError m \<Rightarrow> Inl (failed_to_parse m)
      | ParsedNull \<Rightarrow> Inl (failed_to_parse null_cells_message)
      | Parsed notebook \<Rightarrow>
          if \<not> cells_truthy (p_cells notebook) \<or> \<not> cells_isArray (p_cells notebook)
          then Inl (failed_to_parse ''Invalid notebook format: missing cells array'')
          else if version_unsupported (p_nbformat notebook)
          then Inl (failed_to_parse ''Unsupported notebook format version'')
          else (case p_cells notebook of
                  CellsArray cs \<Rightarrow> Inr (notebook\<lparr>p_cells := CellsArray (map normalize_cell cs)\<rparr>)
                | _ \<Rightarrow> Inl (failed_to_parse ''Invalid notebook format: missing cells array'')))"

text \<open>The two failures the code raises itself, under the names the specification gives them.\<close>

definition MalformedDocument :: string where
  "MalformedDocument = ''Failed to parse notebook: Invalid notebook format: missing cells array''"

definition UnsupportedVersion :: string where
  "UnsupportedVersion = ''Failed to parse notebook: Unsupported notebook format version''"

subsection \<open>Conversion between the document and the in-memory cells\<close>

text \<open>
  \<open>detectLanguage\<close>: the cell's own \<open>language\<close> entry, then the notebook's kernel language,
  then the notebook's language name, then the default for the cell type. Each test is a
  truthiness test (\<open>present_string\<close>), so an empty string counts as absent.
\<close>

fun present_string :: "string option \<Rightarrow> bool" where
  "present_string None = False"
| "present_string (Some s) = (s \<noteq> [])"

definition detectLanguage :: "NotebookCell \<Rightarrow> JupyterNotebook \<Rightarrow> string" where
  "detectLanguage c notebook =
     (let cell_language = Option.bind (c_metadata c) md_language;
          kernel_language = map_option ks_language (Option.bind (nb_metadata notebook) nm_kernelspec);
          info_name = map_option li_name (Option.bind (nb_metadata notebook) nm_language_info)
      in if present_string cell_language then the cell_language
         else if present_string kernel_language then the kernel_language
         else if present_string info_name then the info_name
         else if c_cell_type c = Code then ''python'' else ''markdown'')"

definition empty_metadata :: cell_metadata where
  "empty_metadata = \<lparr>md_language = None, md_entries = []\<rparr>"

text \<open>One cell of \<open>notebookToCells\<close>, at position \<open>index\<close> of the notebook.\<close>

definition cell_of_notebook :: "JupyterNotebook \<Rightarrow> nat \<Rightarrow> NotebookCell \<Rightarrow> cell" where
  "cell_of_notebook notebook index c =
     \<lparr>i_id = (case c_id c of
                Some s \<Rightarrow> if s \<noteq> [] then s else ''cell-'' @ string_of_nat index
              | None \<Rightarrow> ''cell-'' @ string_of_nat index),
      i_type = (if c_cell_type c = Code then TCode else TMarkdown),
      i_language = detectLanguage c notebook,
      i_content = normalizeSource (c_source c),
      i_executionCount = c_execution_count c,
      i_outputs = Some (case c_outputs c of Some os \<Rightarrow> os | None \<Rightarrow> []),
      i_metadata = Some (case c_metadata c of Some m \<Rightarrow> m | None \<Rightarrow> empty_metadata)\<rparr>"

definition notebookToCells :: "JupyterNotebook \<Rightarrow> cell list" where
  "notebookToCells notebook =
     map (\<lambda>(index, c). cell_of_notebook notebook index c)
         (zip [0 ..< length (nb_cells notebook)] (nb_cells notebook))"

definition default_metadata :: notebook_metadata where
  "default_metadata =
     \<lparr>nm_kernelspec = Some \<lparr>ks_display_name = ''Python 3'', ks_language = ''python'',
                              ks_name = ''python3''\<rparr>,
      nm_language_info = Some \<lparr>li_name = ''python'', li_version = ''3.0.0'',
                                 li_mimetype = None, li_file_extension = None\<rparr>,
      nm_entries = []\<rparr>"

text \<open>One cell of \<open>cellsToNotebook\<close>. The cell's \<open>language\<close> is not read.\<close>

definition notebook_cell_of :: "cell \<Rightarrow> NotebookCell" where
  "notebook_cell_of c =
     \<lparr>c_cell_type = (if i_type c = TCode then Code else Markdown),
      c_execution_count = (if i_type c = TCode then i_executionCount c else None),
      c_id = Some (i_id c),
      c_metadata = Some (case i_metadata c of Some m \<Rightarrow> m | None \<Rightarrow> empty_metadata),
      c_source = Some (Lines (split_str CHR ''\<newline>'' (i_content c))),
      c_outputs = (if i_type c = TCode then i_outputs c else None)\<rparr>"

definition cellsToNotebook :: "cell list \<Rightarrow> notebook_metadata option \<Rightarrow> JupyterNotebook" where
  "cellsToNotebook cs metadata =
     \<lparr>nb_cells = map notebook_cell_of cs,
      nb_metadata = Some (case metadata of Some m \<Rightarrow> m | None \<Rightarrow> default_metadata),
      nb_nbformat = 4,
      nb_nbformat_minor = 4\<rparr>"

subsection \<open>formatOutput\<close>

datatype display_type = DText | DHtml | DImage | DError | DStream

record formatted =
  f_type :: display_type
  f_content :: string
  f_mimeType :: "string option"

text \<open>Truthiness and text of a \<open>string | string[]\<close> field; an array is truthy even when empty.\<close>

fun present_text :: "text_value option \<Rightarrow> bool" where
  "present_text None = False"
| "present_text (Some (Text s)) = (s \<noteq> [])"
| "present_text (Some (Lines ls)) = True"

fun text_content :: "text_value option \<Rightarrow> string" where
  "text_content (Some (Lines ls)) = join [] ls"
| "text_content (Some (Text s)) = s"
| "text_content None = []"

definition format_data :: "output_data \<Rightarrow> formatted option" where
  "format_data d =
     (if present_string (image_png d)
      then Some \<lparr>f_type = DImage, f_content = the (image_png d), f_mimeType = Some ''image/png''\<rparr>
      else if present_string (image_jpeg d)
      then Some \<lparr>f_type = DImage, f_content = the (image_jpeg d), f_mimeType = Some ''image/jpeg''\<rparr>
      else if present_text (image_svg_xml d)
      then Some \<lparr>f_type = DImage, f_content = text_content (image_svg_xml d),
                  f_mimeType = Some ''image/svg+xml''\<rparr>
      else if present_text (text_html d)
      then Some \<lparr>f_type = DHtml, f_content = text_content (text_html d), f_mimeType = None\<rparr>
      else if present_text (text_plain d)
      then Some \<lparr>f_type = DText, f_content = text_content (text_plain d), f_mimeType = None\<rparr>
      else None)"

definition formatOutput :: "NotebookOutput \<Rightarrow> formatted" where
  "formatOutput output =
     (if o_output_type output = Error
      then \<lparr>f_type = DError,
            f_content = join ''\<newline>''
              ((case o_ename output of Some s \<Rightarrow> if s \<noteq> [] then s else ''Error'' | None \<Rightarrow> ''Error'')
               # (case o_evalue output of Some s \<Rightarrow> s | None \<Rightarrow> [])
               # (case o_traceback output of Some tb \<Rightarrow> tb | None \<Rightarrow> [])),
            f_mimeType = None\<rparr>
      else if o_output_type output = Stream
      then \<lparr>f_type = DStream, f_content = text_content (o_text output), f_mimeType = None\<rparr>
      else (case Option.bind (o_data output) format_data of
              Some f \<Rightarrow> f
            | None \<Rightarrow> \<lparr>f_type = DText, f_content = [], f_mimeType = None\<rparr>))"

section \<open>The execution services\<close>

subsection \<open>Thrown values and the host\<close>

text \<open>
  A thrown value, by what the \<open>catch\<close> blocks do with it. It is \<open>null\<close> or \<open>undefined\<close> (with
  its \<open>String(e)\<close> text), or any other value, given by the outcomes of reading \<open>e.message\<close>,
  of calling \<open>String(e)\<close> and of reading \<open>e.stack\<close>, in this order. Each outcome is a string
  (the empty string for a property that is absent or falsy, which \<open>||\<close> and \<open>?:\<close> treat
  alike) or, for a getter or a \<open>toString\<close> that throws, the value thrown in turn. Reading
  the same property again gives the same outcome.
\<close>

datatype thrown =
    Nullish string
  | Thrown "thrown + string" "thrown + string" "thrown + string"

text \<open>An ordinary value, such as an \<open>Error\<close> object: every read returns.\<close>

abbreviation Value :: "string \<Rightarrow> string \<Rightarrow> string \<Rightarrow> thrown" where
  "Value m t stack \<equiv> Thrown (Inr m) (Inr t) (Inr stack)"

text \<open>
  What \<open>runPython\<close> throws. Pyodide reports every failure of the interpreted code as its
  \<open>PythonError\<close>, an \<open>Error\<close> object: its message, its text and its stack are strings. The
  model also keeps \<open>null\<close> and \<open>undefined\<close>, on which the read of \<open>error.stack\<close> in the \<open>catch\<close>
  block of the Python service throws.
\<close>

datatype python_thrown = PyNullish string | PythonError string string string

record error_info =
  ei_ename :: string
  ei_evalue :: string
  ei_traceback :: "string list"

record CellExecutionResult =
  r_success :: bool
  r_outputs :: "NotebookOutput list"
  r_execution_count :: nat
  r_error :: "error_info option"

record ExecutionOptions =
  opt_timeout :: "nat option"
  opt_captureOutput :: "bool option"
  opt_workingDirectory :: "string option"
  opt_environment :: "(string \<times> string) list option"
  opt_compileOnly :: "bool option"

text \<open>A row of an SQL reply: the entries of the object, in the order \<open>Object.keys\<close> lists them.\<close>

type_synonym row = "(string \<times> json) list"

record sql_reply =
  sr_success :: bool
  sr_rows :: "row list option"
  sr_error :: "string option"

record text_reply =
  tr_success :: bool
  tr_output :: "string option"
  tr_error :: "string option"

text \<open>What evaluating a JavaScript cell did: the lines \<open>console.log\<close> collected, or a throw.\<close>

datatype eval_outcome = Completed "string list" | Threw thrown

text \<open>
  What running a cell in Pyodide did. Either every \<open>runPython\<close> call of the \<open>try\<close> block
  returned: the captured standard output and standard error, the value of the figure
  check (absent when it returned nothing or threw, which the code ignores) and the text
  \<open>String(result)\<close> of the cell's value (absent for \<open>undefined\<close> and \<open>null\<close>). Or one of them
  threw: the thrown value, and what the traceback query in the \<open>catch\<close> block did.
\<close>

datatype traceback_query = TracebackText string | TracebackThrew

datatype pyodide_outcome =
    PyCompleted string string "string option" "string option"
  | PyThrew python_thrown traceback_query

text \<open>
  The host of one call: everything outside the two services that the call's result
  depends on. A delegated call gives \<open>None\<close> when the import, the call or the reading of
  its reply threw; the code discards the thrown value there. The two regular-expression
  operations of \<open>simulateExecution\<close>, the number formatting of \<open>String\<close> and the stack text
  of a new error are the engine's. Evaluated code is taken not to reach into the
  services' private fields, and every awaited call is taken to settle.
\<close>

record host =
  has_tauri :: bool
  invoke_execute_sql :: "string \<Rightarrow> nat \<Rightarrow> sql_reply option"
  invoke_compile_rust :: "string \<Rightarrow> text_reply option"
  invoke_execute_rust :: "string \<Rightarrow> nat \<Rightarrow> text_reply option"
  invoke_execute_r :: "string \<Rightarrow> nat \<Rightarrow> text_reply option"
  invoke_run_live_preview :: "string \<Rightarrow> string option"
  JSON_parse :: "string \<Rightarrow> json option"
  JSON_stringify :: "json \<Rightarrow> string"
  js_eval :: "string \<Rightarrow> eval_outcome"
  pyodide_loads :: bool
  run_pyodide :: "string \<Rightarrow> pyodide_outcome"
  invoke_execute_python_code ::
    "string \<Rightarrow> nat \<Rightarrow> string option \<Rightarrow> (string \<times> string) list option \<Rightarrow> CellExecutionResult option"
  fetch_python_execute ::
    "string \<Rightarrow> nat \<Rightarrow> string option \<Rightarrow> (string \<times> string) list option \<Rightarrow> CellExecutionResult option"
  match_print :: "string \<Rightarrow> string list"
  replace_print :: "string \<Rightarrow> string"
  number_text :: "rat \<Rightarrow> string"
  stack_text :: "string \<Rightarrow> string"

text \<open>\<open>String(e)\<close> of what \<open>runPython\<close> threw.\<close>

fun thrown_String :: "python_thrown \<Rightarrow> string" where
  "thrown_String (PyNullish s) = s"
| "thrown_String (PythonError m t st) = t"

text \<open>\<open>new Error(m)\<close>, and the \<open>TypeError\<close> of reading property \<open>p\<close> of \<open>null\<close> or \<open>undefined\<close>.\<close>

definition new_Error :: "host \<Rightarrow> string \<Rightarrow> thrown" where
  "new_Error h m =
     (let t = (if m = [] then ''Error'' else ''Error: '' @ m) in Value m t (stack_text h t))"

definition type_error :: "host \<Rightarrow> string \<Rightarrow> string \<Rightarrow> thrown" where
  "type_error h s p =
     (let m = ''Cannot read properties of '' @ s @ '' (reading '' @ [CHR 0x27] @ p @ [CHR 0x27] @ '')'';
          t = ''TypeError: '' @ m
      in Value m t (stack_text h t))"

text \<open>
  What a \<open>catch\<close> block does with the value \<open>e\<close> it caught: \<open>e.message\<close>, \<open>e.stack\<close>,
  \<open>String(e)\<close>, and \<open>v || String(e)\<close> for the outcome \<open>v\<close> of a read. \<open>Inl\<close> is a throw out of
  the \<open>catch\<close> block.
\<close>

fun read_message :: "host \<Rightarrow> thrown \<Rightarrow> thrown + string" where
  "read_message h (Nullish s) = Inl (type_error h s ''message'')"
| "read_message h (Thrown m t stack) = m"

fun read_stack :: "host \<Rightarrow> thrown \<Rightarrow> thrown + string" where
  "read_stack h (Nullish s) = Inl (type_error h s ''stack'')"
| "read_stack h (Thrown m t stack) = stack"

fun to_String :: "thrown \<Rightarrow> thrown + string" where
  "to_String (Nullish s) = Inr s"
| "to_String (Thrown m t stack) = t"

fun or_String :: "thrown \<Rightarrow> thrown + string \<Rightarrow> thrown + string" where
  "or_String e (Inl x) = Inl x"
| "or_String e (Inr v) = (if v \<noteq> [] then Inr v else to_String e)"

text \<open>\<open>options.timeout || 30000\<close>\<close>

definition timeout_or_default :: "ExecutionOptions \<Rightarrow> nat" where
  "timeout_or_default options =
     (case opt_timeout options of Some t \<Rightarrow> if t \<noteq> 0 then t else 30000 | None \<Rightarrow> 30000)"

subsection \<open>Outputs\<close>

definition no_data :: output_data where
  "no_data = \<lparr>text_plain = None, text_html = None, image_png = None, image_jpeg = None,
     image_svg_xml = None, application_json = None, other_mime = []\<rparr>"

definition stream_output :: "stream_name \<Rightarrow> string \<Rightarrow> NotebookOutput" where
  "stream_output n t =
     \<lparr>o_output_type = Stream, o_execution_count = None, o_data = None, o_text = Some (Text t),
      o_name = Some n, o_ename = None, o_evalue = None, o_traceback = None\<rparr>"

definition result_output :: "nat \<Rightarrow> output_data \<Rightarrow> NotebookOutput" where
  "result_output n d =
     \<lparr>o_output_type = Execute_result, o_execution_count = Some n, o_data = Some d,
      o_text = None, o_name = None, o_ename = None, o_evalue = None, o_traceback = None\<rparr>"

definition display_output :: "output_data \<Rightarrow> NotebookOutput" where
  "display_output d =
     \<lparr>o_output_type = Display_data, o_execution_count = None, o_data = Some d,
      o_text = None, o_name = None, o_ename = None, o_evalue = None, o_traceback = None\<rparr>"

definition error_output :: "string \<Rightarrow> string \<Rightarrow> string list \<Rightarrow> NotebookOutput" where
  "error_output en ev tb =
     \<lparr>o_output_type = Error, o_execution_count = None, o_data = None, o_text = None,
      o_name = None, o_ename = Some en, o_evalue = Some ev, o_traceback = Some tb\<rparr>"

definition success_result :: "NotebookOutput list \<Rightarrow> nat \<Rightarrow> CellExecutionResult" where
  "success_result os n =
     \<lparr>r_success = True, r_outputs = os, r_execution_count = n, r_error = None\<rparr>"

subsection \<open>Tabular formatting of SQL rows\<close>

text \<open>
  \<open>String(v)\<close> of a JSON value, and the \<open>String(row[key] || '')\<close> of one table entry: an
  absent or falsy entry prints as the empty string.
\<close>

fun js_String :: "host \<Rightarrow> json \<Rightarrow> string" where
  "js_String h JNull = ''null''"
| "js_String h (JBool b) = (if b then ''true'' else ''false'')"
| "js_String h (JNum n) = number_text h n"
| "js_String h (JStr s) = s"
| "js_String h (JArr xs) =
     join '','' (map (\<lambda>x. if x = JNull then [] else js_String h x) xs)"
| "js_String h (JObj fs) = ''[object Object]''"

definition entry_text :: "host \<Rightarrow> row \<Rightarrow> string \<Rightarrow> string" where
  "entry_text h r key =
     (case map_of r key of
        Some v \<Rightarrow> if js_truthy v then js_String h v else []
      | None \<Rightarrow> [])"

text \<open>\<open>rows.slice(0, 100).map(...)\<close> of the plain-text table.\<close>

definition sql_data_rows :: "host \<Rightarrow> row list \<Rightarrow> string list" where
  "sql_data_rows h rows =
     (let keys = map fst (hd rows)
      in map (\<lambda>r. join '' | '' (map (entry_text h r) keys)) (take 100 rows))"

definition formatSQLTable :: "host \<Rightarrow> row list \<Rightarrow> string" where
  "formatSQLTable h rows =
     (if length rows = 0 then ''No rows returned''
      else
        let keys = map fst (hd rows);
            header = join '' | '' keys;
            separator = join '' | '' (map (\<lambda>k. ''---'') keys);
            dataRows = sql_data_rows h rows
        in join ''\<newline>'' (header # separator # dataRows) @
           (if length rows > 100
            then ''\<newline>... ('' @ string_of_nat (length rows - 100) @ '' more rows)''
            else []))"

text \<open>The rows of the HTML table body, before they are joined.\<close>

definition sql_html_rows :: "host \<Rightarrow> row list \<Rightarrow> string list" where
  "sql_html_rows h rows =
     (let keys = map fst (hd rows)
      in map (\<lambda>r. ''<tr>'' @ join [] (map (\<lambda>k. ''<td>'' @ entry_text h r k @ ''</td>'') keys) @ ''</tr>'')
             (take 100 rows))"

text \<open>The opening of the template literal of \<open>formatSQLTableHTML\<close>, up to the header row.\<close>

definition html_table_open :: string where
  \<open>html_table_open =
     ''\<newline>      <table style="border-collapse: collapse; width: 100%; font-family: monospace; font-size: 12px;">\<newline>        <thead>''\<close>

definition formatSQLTableHTML :: "host \<Rightarrow> row list \<Rightarrow> string" where
  "formatSQLTableHTML h rows =
     (if length rows = 0 then ''<div>No rows returned</div>''
      else
        let keys = map fst (hd rows);
            headerRow = ''<tr>'' @ join [] (map (\<lambda>k. ''<th>'' @ k @ ''</th>'') keys) @ ''</tr>'';
            dataRows = join [] (sql_html_rows h rows)
        in html_table_open @ headerRow @ ''</thead>\<newline>        <tbody>'' @ dataRows
           @ ''</tbody>\<newline>      </table>\<newline>      ''
           @ (if length rows > 100
              then ''<div>... ('' @ string_of_nat (length rows - 100) @ '' more rows)</div>''
              else [])
           @ ''\<newline>    '')"

subsection \<open>The multi-language service: state and backends\<close>

text \<open>
  The state of the two services: the \<open>executionCounts\<close> map of the multi-language
  service, and the Python service's own counter and whether its interpreter is loaded.
\<close>

record services =
  executionCounts :: "string \<rightharpoonup> nat"
  py_executionCount :: nat
  py_pyodide :: bool

text \<open>\<open>this.executionCounts.get(language) || 0\<close>\<close>

definition getExecutionCount :: "services \<Rightarrow> string \<Rightarrow> nat" where
  "getExecutionCount st language =
     (case executionCounts st language of Some n \<Rightarrow> n | None \<Rightarrow> 0)"

definition resetExecutionCount :: "services \<Rightarrow> string option \<Rightarrow> services" where
  "resetExecutionCount st language =
     (case language of
        Some l \<Rightarrow> if l \<noteq> [] then st\<lparr>executionCounts := (executionCounts st)(l \<mapsto> 0)\<rparr>
                  else st\<lparr>executionCounts := Map.empty\<rparr>
      | None \<Rightarrow> st\<lparr>executionCounts := Map.empty\<rparr>)"

text \<open>
  Each backend computes its own \<open>count\<close> from the map as it finds it. Its outer \<open>catch\<close>
  is written out only where a statement of the \<open>try\<close> block can throw: in the SQL, Rust, R
  and NAV-Lambda backends the inner \<open>try\<close> catches every throw of the delegated call and
  the rest builds literals.
\<close>

definition executeSQLWeb :: "string \<Rightarrow> nat \<Rightarrow> CellExecutionResult" where
  \<open>executeSQLWeb code count =
     success_result
       [if startsWith (toUpperCase (trim code)) ''SELECT''
        then result_output count (no_data\<lparr>
               text_plain := Some (Text ''Query executed successfully\<newline>(Simulated - use backend for real SQL)''),
               text_html := Some (Text ''<div style="padding: 12px; background: #1e1e1e; border-radius: 4px;">Query executed successfully<br/>(Simulated - use backend for real SQL)</div>'')\<rparr>)
        else stream_output Stdout ''SQL command executed (simulated)\<newline>'']
       count\<close>

definition executeSQL :: "host \<Rightarrow> services \<Rightarrow> string \<Rightarrow> ExecutionOptions \<Rightarrow> CellExecutionResult" where
  "executeSQL h st code options =
     (let count = getExecutionCount st ''sql'' + 1;
          delegated =
            (if has_tauri h
             then (case invoke_execute_sql h code (timeout_or_default options) of
                     Some reply \<Rightarrow>
                       (case sr_rows reply of
                          Some rows \<Rightarrow>
                            if sr_success reply
                            then Some (success_result
                                   [result_output count (no_data\<lparr>
                                      text_plain := Some (Text (formatSQLTable h rows)),
                                      text_html := Some (Text (formatSQLTableHTML h rows))\<rparr>)]
                                   count)
                            else None
                        | None \<Rightarrow> None)
                   | None \<Rightarrow> None)
             else None)
      in case delegated of Some r \<Rightarrow> r | None \<Rightarrow> executeSQLWeb code count)"

text \<open>\<open>result.output || d\<close> of a delegated reply that reported success.\<close>

definition output_or :: "text_reply \<Rightarrow> string \<Rightarrow> string" where
  "output_or reply d = (case tr_output reply of Some s \<Rightarrow> if s \<noteq> [] then s else d | None \<Rightarrow> d)"

definition executeRust :: "host \<Rightarrow> services \<Rightarrow> string \<Rightarrow> ExecutionOptions \<Rightarrow> CellExecutionResult" where
  "executeRust h st code options =
     (let count = getExecutionCount st ''rust'' + 1;
          delegated =
            (if has_tauri h
             then (if opt_compileOnly options = Some True
                   then (case invoke_compile_rust h code of
                           Some reply \<Rightarrow>
                             if tr_success reply
                             then Some (success_result
                                    [stream_output Stdout (output_or reply ''Compilation successful'')] count)
                             else None
                         | None \<Rightarrow> None)
                   else (case invoke_execute_rust h code (timeout_or_default options) of
                           Some reply \<Rightarrow>
                             if tr_success reply
                             then Some (success_result
                                    [stream_output Stdout (output_or reply ''Execution successful'')] count)
                             else None
                         | None \<Rightarrow> None))
             else None)
      in case delegated of
           Some r \<Rightarrow> r
         | None \<Rightarrow> success_result
             [stream_output Stdout ''Rust code compiled and executed (simulated)\<newline>Note: Real Rust execution requires backend or WebAssembly compilation'']
             count)"

definition executeR :: "host \<Rightarrow> services \<Rightarrow> string \<Rightarrow> ExecutionOptions \<Rightarrow> CellExecutionResult" where
  "executeR h st code options =
     (let count = getExecutionCount st ''r'' + 1;
          delegated =
            (if has_tauri h
             then (case invoke_execute_r h code (timeout_or_default options) of
                     Some reply \<Rightarrow>
                       if tr_success reply
                       then Some (success_result
                              [stream_output Stdout (output_or reply ''R code executed successfully'')] count)
                       else None
                   | None \<Rightarrow> None)
             else None)
      in case delegated of
           Some r \<Rightarrow> r
         | None \<Rightarrow> success_result
             [stream_output Stdout ''R code executed (simulated)\<newline>Note: Real R execution requires R.js or backend R installation'']
             count)"

text \<open>The two characters of the source outside ASCII, as their UTF-8 bytes.\<close>

definition Lambda :: string where
  "Lambda = [CHR 0xCE, CHR 0x9B]"

definition arrow :: string where
  "arrow = [CHR 0xE2, CHR 0x86, CHR 0x92]"

definition executeNavLambda :: "host \<Rightarrow> services \<Rightarrow> string \<Rightarrow> ExecutionOptions \<Rightarrow> CellExecutionResult" where
  "executeNavLambda h st code options =
     (let count = getExecutionCount st ''navlambda'' + 1;
          delegated =
            (if has_tauri h
             then (case invoke_run_live_preview h code of
                     Some result \<Rightarrow>
                       (case JSON_parse h result of
                          Some parsedResult \<Rightarrow>
                            Some (success_result
                              [result_output count (no_data\<lparr>
                                 application_json := Some parsedResult,
                                 text_plain := Some (Text
                                   (case parsedResult of
                                      JStr s \<Rightarrow> s
                                    | _ \<Rightarrow> JSON_stringify h parsedResult))\<rparr>)]
                              count)
                        | None \<Rightarrow> Some (success_result [stream_output Stdout result] count))
                   | None \<Rightarrow> None)
             else None)
      in case delegated of
           Some r \<Rightarrow> r
         | None \<Rightarrow> success_result
             [stream_output Stdout
                (''NAV'' @ Lambda @ '' code executed (simulated)\<newline>'' @ arrow
                 @ '' Navigation field computed\<newline>'' @ arrow
                 @ '' Optimal path calculated\<newline>Note: Real NAV'' @ Lambda
                 @ '' execution requires backend compiler'')]
             count)"

text \<open>
  \<open>executeJavaScript\<close>: a throw of the evaluated code is caught. The \<open>catch\<close> block
  evaluates \<open>error.message || String(error)\<close> and then \<open>error.stack || String(error)\<close>; each
  read can throw out of the block: a \<open>TypeError\<close> when the caught value is \<open>null\<close> or
  \<open>undefined\<close>, and whatever a getter or \<open>toString\<close> of the caught value throws. The result of
  the \<open>catch\<close> block has no \<open>error\<close> field.
\<close>

definition executeJavaScript ::
  "host \<Rightarrow> services \<Rightarrow> string \<Rightarrow> string \<Rightarrow> ExecutionOptions \<Rightarrow> thrown + CellExecutionResult" where
  "executeJavaScript h st code language options =
     (let count = getExecutionCount st language + 1
      in case js_eval h code of
           Completed consoleLogs \<Rightarrow>
             Inr (success_result
               [if length consoleLogs > 0
                then stream_output Stdout (join ''\<newline>'' consoleLogs @ ''\<newline>'')
                else result_output count (no_data\<lparr>text_plain := Some (Text ''Code executed successfully'')\<rparr>)]
               count)
         | Threw error \<Rightarrow>
             (case or_String error (read_message h error) of
                Inl x \<Rightarrow> Inl x
              | Inr evalue \<Rightarrow>
                  (case or_String error (read_stack h error) of
                     Inl x \<Rightarrow> Inl x
                   | Inr trace \<Rightarrow>
                       Inr \<lparr>r_success = False,
                            r_outputs = [error_output ''JavaScriptError'' evalue [trace]],
                            r_execution_count = count,
                            r_error = None\<rparr>)))"

subsection \<open>The Python service (python-execution-service.ts)\<close>

definition python_error_result :: "nat \<Rightarrow> string \<Rightarrow> string list \<Rightarrow> CellExecutionResult" where
  "python_error_result n errorValue tb =
     \<lparr>r_success = False,
      r_outputs = [error_output ''Error'' errorValue tb],
      r_execution_count = n,
      r_error = Some \<lparr>ei_ename = ''Error'', ei_evalue = errorValue, ei_traceback = tb\<rparr>\<rparr>"

text \<open>
  \<open>executeWithPyodide\<close>. In the \<open>catch\<close> block the traceback query runs in a \<open>try\<close> of its
  own; when it throws, \<open>error.stack\<close> is read, which throws a \<open>TypeError\<close> out of the
  function when the caught value is \<open>null\<close> or \<open>undefined\<close>.
\<close>

definition executeWithPyodide :: "host \<Rightarrow> services \<Rightarrow> string \<Rightarrow> thrown + CellExecutionResult" where
  "executeWithPyodide h st code =
     (let n = py_executionCount st
      in case run_pyodide h code of
           PyCompleted stdoutContent stderrContent hasFigure result \<Rightarrow>
             Inr (success_result
               ((if stdoutContent \<noteq> [] then [stream_output Stdout stdoutContent] else [])
                @ (if stderrContent \<noteq> [] then [stream_output Stderr stderrContent] else [])
                @ (case hasFigure of
                     Some f \<Rightarrow>
                       if f \<noteq> [] \<and> f \<noteq> ''None''
                       then [display_output (no_data\<lparr>image_png := Some f,
                               text_plain := Some (Text ''<matplotlib.figure.Figure>'')\<rparr>)]
                       else []
                   | None \<Rightarrow> [])
                @ (case result of
                     Some repr \<Rightarrow>
                       if repr \<noteq> [] \<and> repr \<noteq> ''None''
                       then [result_output n (no_data\<lparr>text_plain := Some (Text repr)\<rparr>)]
                       else []
                   | None \<Rightarrow> []))
               n)
         | PyThrew e (TracebackText pyError) \<Rightarrow>
             (if pyError \<noteq> []
              then let tb = split_str CHR ''\<newline>'' pyError
                   in Inr (python_error_result n
                        (if hd tb \<noteq> [] then hd tb else thrown_String e)
                        (if length tb > 0 then tb else [thrown_String e]))
              else Inr (python_error_result n (thrown_String e) [thrown_String e]))
         | PyThrew (PyNullish s) TracebackThrew \<Rightarrow> Inl (type_error h s ''stack'')
         | PyThrew (PythonError m t stack) TracebackThrew \<Rightarrow>
             (let tb = (if stack \<noteq> [] then split_str CHR ''\<newline>'' stack else [t])
              in Inr (python_error_result n t (if length tb > 0 then tb else [t]))))"

definition simulateExecution :: "host \<Rightarrow> services \<Rightarrow> string \<Rightarrow> CellExecutionResult" where
  "simulateExecution h st code =
     (let n = py_executionCount st;
          outputs =
            map (\<lambda>m. stream_output Stdout (replace_print h m @ ''\<newline>'')) (match_print h code)
            @ (if includes_str code ''import matplotlib'' \<or> includes_str code ''import plt''
               then [display_output (no_data\<lparr>text_plain := Some (Text ''<matplotlib.figure.Figure>'')\<rparr>)]
               else [])
      in success_result
           (if length outputs = 0
            then [result_output n
                    (no_data\<lparr>text_plain := Some (Text ''Code executed successfully (simulated)'')\<rparr>)]
            else outputs)
           n)"

text \<open>
  The reply of a delegated Python run is cast to \<open>CellExecutionResult\<close> and returned with
  its count overwritten; any failure on the way falls back to the simulation.
\<close>

definition executeWithTauri :: "host \<Rightarrow> services \<Rightarrow> string \<Rightarrow> ExecutionOptions \<Rightarrow> CellExecutionResult" where
  "executeWithTauri h st code options =
     (case invoke_execute_python_code h code (timeout_or_default options)
             (opt_workingDirectory options) (opt_environment options) of
        Some result \<Rightarrow> result\<lparr>r_execution_count := py_executionCount st\<rparr>
      | None \<Rightarrow> simulateExecution h st code)"

definition executeWithAPI :: "host \<Rightarrow> services \<Rightarrow> string \<Rightarrow> ExecutionOptions \<Rightarrow> CellExecutionResult" where
  "executeWithAPI h st code options =
     (case fetch_python_execute h code (timeout_or_default options)
             (opt_workingDirectory options) (opt_environment options) of
        Some result \<Rightarrow> result\<lparr>r_execution_count := py_executionCount st\<rparr>
      | None \<Rightarrow> simulateExecution h st code)"

definition executeWithBackend :: "host \<Rightarrow> services \<Rightarrow> string \<Rightarrow> ExecutionOptions \<Rightarrow> CellExecutionResult" where
  "executeWithBackend h st code options =
     (if has_tauri h then executeWithTauri h st code options
      else executeWithAPI h st code options)"

text \<open>
  \<open>pythonExecutionService.executeCode\<close>: the service's counter goes up, the interpreter is
  loaded if it is not yet (\<open>tryInitializePyodide\<close> catches every failure), and the cell
  runs in the interpreter or, without one, in the backend.
\<close>

definition python_executeCode ::
  "host \<Rightarrow> services \<Rightarrow> string \<Rightarrow> ExecutionOptions \<Rightarrow> services \<times> (thrown + CellExecutionResult)" where
  "python_executeCode h st code options =
     (let st1 = st\<lparr>py_executionCount := py_executionCount st + 1\<rparr>;
          st2 = (if py_pyodide st1 then st1 else st1\<lparr>py_pyodide := pyodide_loads h\<rparr>)
      in if py_pyodide st2
         then (st2, executeWithPyodide h st2 code)
         else (st2, Inr (executeWithBackend h st2 code options)))"

subsection \<open>The dispatcher\<close>

text \<open>The \<open>switch\<close> of \<open>executeCode\<close>: the backend's result, or what it threw.\<close>

definition dispatch ::
  "host \<Rightarrow> services \<Rightarrow> string \<Rightarrow> string \<Rightarrow> ExecutionOptions \<Rightarrow> services \<times> (thrown + CellExecutionResult)" where
  "dispatch h st language code options =
     (if language = ''python'' then python_executeCode h st code options
      else if language = ''sql'' then (st, Inr (executeSQL h st code options))
      else if language = ''rust'' then (st, Inr (executeRust h st code options))
      else if language = ''r'' then (st, Inr (executeR h st code options))
      else if language = ''navlambda'' \<or> language = ''vnc''
      then (st, Inr (executeNavLambda h st code options))
      else if language = ''javascript'' \<or> language = ''typescript''
      then (st, executeJavaScript h st code language options)
      else (st, Inl (new_Error h (''Unsupported language: '' @ language))))"

text \<open>
  \<open>executeCode\<close>: the counter of \<open>language\<close> goes up before the \<open>switch\<close>; a throw of the
  \<open>switch\<close> is caught and turned into a failed result stamped with that counter. The
  \<open>catch\<close> block evaluates \<open>error.message || String(error)\<close> and then \<open>String(error)\<close> for
  the trace, so it throws itself when the caught value is \<open>null\<close> or \<open>undefined\<close> or when one
  of these reads throws. \<open>Inl\<close> is a throw of \<open>executeCode\<close> itself: the promise it returned
  is rejected.
\<close>

definition executeCode ::
  "host \<Rightarrow> services \<Rightarrow> string \<Rightarrow> string \<Rightarrow> ExecutionOptions \<Rightarrow> services \<times> (thrown + CellExecutionResult)" where
  "executeCode h st language code options =
     (let count = getExecutionCount st language + 1;
          st1 = st\<lparr>executionCounts := (executionCounts st)(language \<mapsto> count)\<rparr>
      in case dispatch h st1 language code options of
           (st2, Inr result) \<Rightarrow> (st2, Inr result)
         | (st2, Inl error) \<Rightarrow>
             (case or_String error (read_message h error) of
                Inl x \<Rightarrow> (st2, Inl x)
              | Inr evalue \<Rightarrow>
                  (case to_String error of
                     Inl x \<Rightarrow> (st2, Inl x)
                   | Inr t \<Rightarrow>
                       (st2, Inr \<lparr>r_success = False,
                                  r_outputs = [error_output ''ExecutionError'' evalue [t]],
                                  r_execution_count = count,
                                  r_error = Some \<lparr>ei_ename = ''ExecutionError'',
                                                   ei_evalue = evalue,
                                                   ei_traceback = [t]\<rparr>\<rparr>))))"

text \<open>The languages the \<open>switch\<close> has a case for.\<close>

definition supported_languages :: "string list" where
  "supported_languages =
     [''python'', ''sql'', ''rust'', ''r'', ''navlambda'', ''vnc'', ''javascript'', ''typescript'']"

text \<open>
  A sequence of calls, each with its own host: the final state and the outcomes in call
  order. A request is the host, the language, the code and the options of one call.
\<close>

type_synonym request = "host \<times> string \<times> string \<times> ExecutionOptions"

fun run_calls :: "services \<Rightarrow> request list \<Rightarrow> services \<times> (thrown + CellExecutionResult) list" where
  "run_calls st [] = (st, [])"
| "run_calls st ((h, language, code, options) # rqs) =
     (case executeCode h st language code options of
        (st1, r) \<Rightarrow> (case run_calls st1 rqs of (st2, rs) \<Rightarrow> (st2, r # rs)))"

text \<open>The services as the module creates them.\<close>

definition new_services :: services where
  "new_services = \<lparr>executionCounts = Map.empty, py_executionCount = 0, py_pyodide = False\<rparr>"

text \<open>The count a call outcome carries, when the call returned a result.\<close>

fun returned_count :: "thrown + CellExecutionResult \<Rightarrow> nat option" where
  "returned_count (Inr result) = Some (r_execution_count result)"
| "returned_count (Inl e) = None"

text \<open>Whether a list of outputs holds an output of kind \<open>error\<close>.\<close>

definition has_error_output :: "NotebookOutput list \<Rightarrow> bool" where
  "has_error_output os = (Error \<in> set (map o_output_type os))"

subsection \<open>A concrete host\<close>

text \<open>
  The host of a call made in a plain browser page: no privileged engine, no interpreter,
  no Python endpoint. The cell's evaluation does \<open>ev\<close>; the cell holds no \<open>print(...)\<close>
  statement, so the two regular-expression operations find nothing to do. Fields that
  such a call never consults hold trivial values.
\<close>

definition offline_host :: "eval_outcome \<Rightarrow> host" where
  "offline_host ev =
     \<lparr>has_tauri = False,
      invoke_execute_sql = (\<lambda>code t. None),
      invoke_compile_rust = (\<lambda>code. None),
      invoke_execute_rust = (\<lambda>code t. None),
      invoke_execute_r = (\<lambda>code t. None),
      invoke_run_live_preview = (\<lambda>code. None),
      JSON_parse = (\<lambda>s. None),
      JSON_stringify = (\<lambda>v. []),
      js_eval = (\<lambda>code. ev),
      pyodide_loads = False,
      run_pyodide = (\<lambda>code. PyThrew (PythonError [] [] []) TracebackThrew),
      invoke_execute_python_code = (\<lambda>code t w e. None),
      fetch_python_execute = (\<lambda>code t w e. None),
      match_print = (\<lambda>code. []),
      replace_print = (\<lambda>s. s),
      number_text = (\<lambda>n. []),
      stack_text = (\<lambda>t. t @ ''\<newline>    at <anonymous>'')\<rparr>"

definition no_options :: ExecutionOptions where
  "no_options = \<lparr>opt_timeout = None, opt_captureOutput = None, opt_workingDirectory = None,
     opt_environment = None, opt_compileOnly = None\<rparr>"

section \<open>Facts about the model\<close>

subsection \<open>Strings\<close>

lemma join_empty_sep: "join [] ls = concat ls"
  by (induction "[] :: string" ls rule: join.induct) simp_all

lemma normalizeSource_concat:
  "normalizeSource src = (case src of Some (Lines ls) \<Rightarrow> concat ls | Some (Text s) \<Rightarrow> s | None \<Rightarrow> [])"
  by (cases src rule: normalizeSource.cases) (simp_all add: join_empty_sep)

lemma digit_not_newline:
  fixes n :: nat
  assumes "n < 10"
  shows "char_of (48 + n) \<noteq> CHR ''\<newline>''"
  using assms by (simp add: char_of_eq_iff take_bit_eq_mod)

lemma string_of_nat_no_newline: "CHR ''\<newline>'' \<notin> set (string_of_nat n)"
proof (induction n rule: string_of_nat.induct)
  case (1 n)
  show ?case
  proof (cases "n < 10")
    case True
    then show ?thesis
      using digit_not_newline [of n] by (subst string_of_nat.simps) auto
  next
    case False
    then have "CHR ''\<newline>'' \<notin> set (string_of_nat (n div 10))"
      using "1.IH" by simp
    moreover have "char_of (48 + n mod 10) \<noteq> CHR ''\<newline>''"
      using digit_not_newline [of "n mod 10"] by simp
    ultimately show ?thesis
      using False by (subst string_of_nat.simps) auto
  qed
qed

lemma split_on_no_sep: "c \<notin> set s \<Longrightarrow> split_on c s acc = [acc @ s]"
  by (induction s arbitrary: acc) auto

lemma split_on_sep:
  "c \<notin> set a \<Longrightarrow> split_on c (a @ c # s) acc = (acc @ a) # split_on c s []"
  by (induction a arbitrary: acc) auto

lemma split_on_join:
  "xs \<noteq> [] \<Longrightarrow> \<forall>x \<in> set xs. c \<notin> set x \<Longrightarrow> split_on c (join [c] xs) acc = (acc @ hd xs) # tl xs"
proof (induction "[c]" xs arbitrary: acc rule: join.induct)
  case 1
  then show ?case by simp
next
  case (2 x)
  then show ?case by (simp add: split_on_no_sep)
next
  case (3 x y ys)
  have "split_on c (join [c] (x # y # ys)) acc = (acc @ x) # split_on c (join [c] (y # ys)) []"
    using "3.prems" by (simp add: split_on_sep)
  also have "split_on c (join [c] (y # ys)) [] = ([] @ hd (y # ys)) # tl (y # ys)"
    using "3.prems" by (intro "3.hyps") auto
  finally show ?case by simp
qed

lemma split_str_join:
  "xs \<noteq> [] \<Longrightarrow> \<forall>x \<in> set xs. c \<notin> set x \<Longrightarrow> split_str c (join [c] xs) = xs"
  by (simp add: split_str_def split_on_join)

lemma join_snoc: "xs \<noteq> [] \<Longrightarrow> join sep xs @ sep @ y = join sep (xs @ [y])"
  by (induction sep xs rule: join.induct) auto

lemma join_no_char:
  "c \<notin> set sep \<Longrightarrow> \<forall>x \<in> set xs. c \<notin> set x \<Longrightarrow> c \<notin> set (join sep xs)"
  by (induction sep xs rule: join.induct) auto

subsection \<open>The round trip through the document\<close>

text \<open>
  What \<open>cellsToNotebook\<close> followed by \<open>notebookToCells\<close> does to a cell: the content loses
  its newlines, an empty id is replaced, the language is detected anew, and a markdown cell
  loses its count and outputs.
\<close>

lemma concat_split_on: "concat (split_on c s acc) = acc @ filter (\<lambda>x. x \<noteq> c) s"
  by (induction s arbitrary: acc) auto

lemma round_trip_cell:
  "cell_of_notebook nb index (notebook_cell_of c) =
     \<lparr>i_id = (if i_id c \<noteq> [] then i_id c else ''cell-'' @ string_of_nat index),
      i_type = i_type c,
      i_language = detectLanguage (notebook_cell_of c) nb,
      i_content = filter (\<lambda>x. x \<noteq> CHR ''\<newline>'') (i_content c),
      i_executionCount = (if i_type c = TCode then i_executionCount c else None),
      i_outputs = Some (if i_type c = TCode
                        then (case i_outputs c of Some os \<Rightarrow> os | None \<Rightarrow> [])
                        else []),
      i_metadata = Some (case i_metadata c of Some m \<Rightarrow> m | None \<Rightarrow> empty_metadata)\<rparr>"
  by (cases "i_type c")
     (simp_all add: cell_of_notebook_def notebook_cell_of_def join_empty_sep split_str_def
        concat_split_on)

lemma round_trip_cells:
  "notebookToCells (cellsToNotebook cs md) =
     map (\<lambda>(index, c). cell_of_notebook (cellsToNotebook cs md) index (notebook_cell_of c))
         (zip [0 ..< length cs] cs)"
  by (simp add: notebookToCells_def cellsToNotebook_def zip_map2 case_prod_unfold)

lemma round_trip_content:
  "map i_content (notebookToCells (cellsToNotebook cs md)) =
     map (\<lambda>c. filter (\<lambda>x. x \<noteq> CHR ''\<newline>'') (i_content c)) cs"
proof -
  have z: "map snd (zip [0 ..< length cs] cs) = cs"
    by simp
  have "map i_content (notebookToCells (cellsToNotebook cs md)) =
          map (\<lambda>p. filter (\<lambda>x. x \<noteq> CHR ''\<newline>'') (i_content (snd p))) (zip [0 ..< length cs] cs)"
    by (simp add: round_trip_cells round_trip_cell case_prod_unfold)
  also have "\<dots> = map (\<lambda>c. filter (\<lambda>x. x \<noteq> CHR ''\<newline>'') (i_content c))
                     (map snd (zip [0 ..< length cs] cs))"
    by (simp only: map_map comp_def)
  finally show ?thesis
    by (simp only: z)
qed

subsection \<open>The SQL table\<close>

lemma length_sql_data_rows: "length (sql_data_rows h rows) = min 100 (length rows)"
  by (simp add: sql_data_rows_def Let_def min_def)

lemma length_sql_html_rows: "length (sql_html_rows h rows) = min 100 (length rows)"
  by (simp add: sql_html_rows_def Let_def min_def)

lemma separator_no_newline:
  "CHR ''\<newline>'' \<notin> set (join '' | '' (map (\<lambda>k. ''---'') keys))"
  by (rule join_no_char) auto

lemma formatSQLTable_text:
  "rows \<noteq> [] \<Longrightarrow>
   formatSQLTable h rows =
     join ''\<newline>'' (join '' | '' (map fst (hd rows))
        # join '' | '' (map (\<lambda>k. ''---'') (map fst (hd rows)))
        # sql_data_rows h rows)
     @ (if 100 < length rows
        then ''\<newline>... ('' @ string_of_nat (length rows - 100) @ '' more rows)''
        else [])"
  by (simp add: formatSQLTable_def Let_def)

lemma formatSQLTable_lines:
  assumes "rows \<noteq> []"
    and "\<forall>l \<in> set (join '' | '' (map fst (hd rows)) # sql_data_rows h rows). CHR ''\<newline>'' \<notin> set l"
  shows "split_str CHR ''\<newline>'' (formatSQLTable h rows) =
     join '' | '' (map fst (hd rows))
       # join '' | '' (map (\<lambda>k. ''---'') (map fst (hd rows)))
       # sql_data_rows h rows
       @ (if 100 < length rows
          then [''... ('' @ string_of_nat (length rows - 100) @ '' more rows)'']
          else [])"
proof -
  let ?lines = "join '' | '' (map fst (hd rows))
       # join '' | '' (map (\<lambda>k. ''---'') (map fst (hd rows)))
       # sql_data_rows h rows"
  let ?trailer = "''... ('' @ string_of_nat (length rows - 100) @ '' more rows)''"
  have body: "\<forall>l \<in> set ?lines. CHR ''\<newline>'' \<notin> set l"
    using assms(2) separator_no_newline [of "map fst (hd rows)"] by (simp del: map_map)
  have trailer: "CHR ''\<newline>'' \<notin> set ?trailer"
    using string_of_nat_no_newline by simp
  show ?thesis
  proof (cases "100 < length rows")
    case True
    have "formatSQLTable h rows = join ''\<newline>'' ?lines @ ''\<newline>'' @ ?trailer"
      using assms(1) True by (simp add: formatSQLTable_text)
    also have "\<dots> = join ''\<newline>'' (?lines @ [?trailer])"
      by (rule join_snoc) simp
    finally have eq: "formatSQLTable h rows = join ''\<newline>'' (?lines @ [?trailer])" .
    have "split_str CHR ''\<newline>'' (join ''\<newline>'' (?lines @ [?trailer])) = ?lines @ [?trailer]"
    proof (rule split_str_join)
      show "?lines @ [?trailer] \<noteq> []" by simp
      show "\<forall>x \<in> set (?lines @ [?trailer]). CHR ''\<newline>'' \<notin> set x"
        using body trailer by (simp del: map_map)
    qed
    then have "split_str CHR ''\<newline>'' (formatSQLTable h rows) = ?lines @ [?trailer]"
      by (simp only: eq)
    with True show ?thesis by (simp del: map_map)
  next
    case False
    have eq: "formatSQLTable h rows = join ''\<newline>'' ?lines"
      using assms(1) False by (simp add: formatSQLTable_text)
    have "split_str CHR ''\<newline>'' (join ''\<newline>'' ?lines) = ?lines"
    proof (rule split_str_join)
      show "?lines \<noteq> []" by simp
      show "\<forall>x \<in> set ?lines. CHR ''\<newline>'' \<notin> set x"
        using body by (simp del: map_map)
    qed
    then have "split_str CHR ''\<newline>'' (formatSQLTable h rows) = ?lines"
      by (simp only: eq)
    with False show ?thesis by (simp del: map_map)
  qed
qed

lemma string_of_nat_50: "string_of_nat 50 = ''50''"
  by code_simp

subsection \<open>The dispatcher and its backends\<close>

lemma python_executeCode_counts:
  "executionCounts (fst (python_executeCode h st code options)) = executionCounts st"
  by (simp add: python_executeCode_def Let_def)

lemma dispatch_counts:
  "executionCounts (fst (dispatch h st language code options)) = executionCounts st"
  by (simp add: dispatch_def python_executeCode_counts)

lemma executeWithPyodide_throws_value:
  "executeWithPyodide h st code = Inl e \<Longrightarrow> \<exists>m t s. e = Value m t s"
  by (auto simp add: executeWithPyodide_def type_error_def Let_def
      split: pyodide_outcome.splits traceback_query.splits python_thrown.splits if_splits)

lemma python_executeCode_throws_value:
  "snd (python_executeCode h st code options) = Inl e \<Longrightarrow> \<exists>m t s. e = Value m t s"
  unfolding python_executeCode_def Let_def
  by (auto split: if_splits dest: executeWithPyodide_throws_value)

lemma executeCode_fst:
  "fst (executeCode h st language code options) =
     fst (dispatch h (st\<lparr>executionCounts :=
            (executionCounts st)(language \<mapsto> getExecutionCount st language + 1)\<rparr>)
          language code options)"
  by (simp add: executeCode_def Let_def split: prod.splits sum.splits)

lemma executeCode_counts:
  "executionCounts (fst (executeCode h st language code options))
     = (executionCounts st)(language \<mapsto> getExecutionCount st language + 1)"
  by (simp add: executeCode_fst dispatch_counts)

lemma run_calls_Cons:
  "run_calls st ((h, language, code, options) # rqs) =
     (fst (run_calls (fst (executeCode h st language code options)) rqs),
      snd (executeCode h st language code options)
        # snd (run_calls (fst (executeCode h st language code options)) rqs))"
  by (simp split: prod.splits)

lemma executeWithPyodide_count:
  "executeWithPyodide h st code = Inr res \<Longrightarrow> r_execution_count res = py_executionCount st"
  by (auto simp add: executeWithPyodide_def Let_def success_result_def python_error_result_def
      split: pyodide_outcome.splits traceback_query.splits python_thrown.splits if_splits)

lemma executeWithBackend_count:
  "r_execution_count (executeWithBackend h st code options) = py_executionCount st"
  by (simp add: executeWithBackend_def executeWithTauri_def executeWithAPI_def
      simulateExecution_def success_result_def Let_def split: option.splits)

lemma python_executeCode_count:
  "snd (python_executeCode h st code options) = Inr res \<Longrightarrow>
     r_execution_count res = py_executionCount st + 1"
  by (auto simp add: python_executeCode_def Let_def executeWithBackend_count
      dest!: executeWithPyodide_count split: if_splits)

lemma python_executeCode_py_count:
  "py_executionCount (fst (python_executeCode h st code options)) = py_executionCount st + 1"
  by (simp add: python_executeCode_def Let_def)

lemma dispatch_python:
  "dispatch h st ''python'' code options = python_executeCode h st code options"
  by (simp add: dispatch_def)

lemma executeCode_caught:
  assumes "snd (dispatch h (st\<lparr>executionCounts :=
            (executionCounts st)(language \<mapsto> getExecutionCount st language + 1)\<rparr>)
          language code options) = Inl (Value m t s)"
  shows "snd (executeCode h st language code options) =
     Inr \<lparr>r_success = False,
          r_outputs = [error_output ''ExecutionError'' (if m \<noteq> [] then m else t) [t]],
          r_execution_count = getExecutionCount st language + 1,
          r_error = Some \<lparr>ei_ename = ''ExecutionError'',
                           ei_evalue = (if m \<noteq> [] then m else t),
                           ei_traceback = [t]\<rparr>\<rparr>"
  using assms
  by (cases "dispatch h (st\<lparr>executionCounts :=
            (executionCounts st)(language \<mapsto> getExecutionCount st language + 1)\<rparr>)
          language code options") (simp add: executeCode_def Let_def)

lemma executeCode_returned:
  assumes "snd (dispatch h (st\<lparr>executionCounts :=
            (executionCounts st)(language \<mapsto> getExecutionCount st language + 1)\<rparr>)
          language code options) = Inr res"
  shows "snd (executeCode h st language code options) = Inr res"
  using assms
  by (cases "dispatch h (st\<lparr>executionCounts :=
            (executionCounts st)(language \<mapsto> getExecutionCount st language + 1)\<rparr>)
          language code options") (simp add: executeCode_def Let_def)

subsection \<open>Counters\<close>

lemma getExecutionCount_update:
  "getExecutionCount (st\<lparr>executionCounts := (executionCounts st)(l \<mapsto> n)\<rparr>) l' =
     (if l' = l then n else getExecutionCount st l')"
  by (simp add: getExecutionCount_def)

lemma executeCode_getExecutionCount:
  "getExecutionCount (fst (executeCode h st language code options)) l =
     (if l = language then getExecutionCount st l + 1 else getExecutionCount st l)"
  by (simp add: getExecutionCount_def executeCode_counts)

lemma run_calls_counts:
  "getExecutionCount (fst (run_calls st rqs)) l =
     getExecutionCount st l + length (filter (\<lambda>rq. fst (snd rq) = l) rqs)"
proof (induction rqs arbitrary: st)
  case Nil
  then show ?case by simp
next
  case (Cons rq rqs)
  obtain h language code options where rq: "rq = (h, language, code, options)"
    by (cases rq) auto
  show ?case
    unfolding rq run_calls_Cons
    by (simp add: Cons.IH executeCode_getExecutionCount)
qed

lemma executeCode_python_count:
  "returned_count (snd (executeCode h st ''python'' code options)) = Some (py_executionCount st + 1)
   \<or> returned_count (snd (executeCode h st ''python'' code options))
       = Some (getExecutionCount st ''python'' + 1)"
proof -
  let ?st1 = "st\<lparr>executionCounts :=
     (executionCounts st)(''python'' \<mapsto> getExecutionCount st ''python'' + 1)\<rparr>"
  show ?thesis
  proof (cases "snd (dispatch h ?st1 ''python'' code options)")
    case (Inl e)
    then obtain m t s where "e = Value m t s"
      using python_executeCode_throws_value [of h ?st1 code options e]
      by (auto simp add: dispatch_python)
    with Inl show ?thesis
      using executeCode_caught [of h st "''python''" code options m t s] by simp
  next
    case (Inr res)
    then have "r_execution_count res = py_executionCount ?st1 + 1"
      using python_executeCode_count [of h ?st1 code options res] by (simp add: dispatch_python)
    with Inr show ?thesis
      using executeCode_returned [of h st "''python''" code options res] by simp
  qed
qed

lemma executeCode_python_state:
  "py_executionCount (fst (executeCode h st ''python'' code options)) = py_executionCount st + 1"
  by (simp add: executeCode_fst dispatch_python python_executeCode_py_count)

lemma executeRust_count:
  "r_execution_count (executeRust h st code options) = getExecutionCount st ''rust'' + 1"
  by (simp add: executeRust_def Let_def success_result_def split: option.splits)

lemma dispatch_rust:
  "dispatch h st ''rust'' code options = (st, Inr (executeRust h st code options))"
  by (simp add: dispatch_def)

lemma executeCode_rust_count:
  "returned_count (snd (executeCode h st ''rust'' code options))
     = Some (getExecutionCount st ''rust'' + 2)"
  using executeCode_returned [of h st "''rust''" code options
      "executeRust h (st\<lparr>executionCounts :=
         (executionCounts st)(''rust'' \<mapsto> getExecutionCount st ''rust'' + 1)\<rparr>) code options"]
  by (simp add: dispatch_rust executeRust_count getExecutionCount_update)

lemma executeCode_rust_state:
  "py_executionCount (fst (executeCode h st ''rust'' code options)) = py_executionCount st"
  by (simp add: executeCode_fst dispatch_rust)

lemma executeNavLambda_count:
  "r_execution_count (executeNavLambda h st code options) = getExecutionCount st ''navlambda'' + 1"
  by (simp add: executeNavLambda_def Let_def success_result_def split: option.splits)

lemma dispatch_navlambda:
  "language = ''navlambda'' \<or> language = ''vnc'' \<Longrightarrow>
     dispatch h st language code options = (st, Inr (executeNavLambda h st code options))"
  by (auto simp add: dispatch_def)

lemma executeCode_navlambda:
  assumes "language = ''navlambda'' \<or> language = ''vnc''"
  shows "executeCode h st language code options =
     (st\<lparr>executionCounts := (executionCounts st)(language \<mapsto> getExecutionCount st language + 1)\<rparr>,
      Inr (executeNavLambda h
        (st\<lparr>executionCounts := (executionCounts st)(language \<mapsto> getExecutionCount st language + 1)\<rparr>)
        code options))"
  using assms by (simp add: executeCode_def Let_def dispatch_navlambda)

lemma vnc_calls_counts:
  "\<forall>rq \<in> set rqs. fst (snd rq) = ''vnc'' \<Longrightarrow>
   map returned_count (snd (run_calls st rqs))
     = replicate (length rqs) (Some (getExecutionCount st ''navlambda'' + 1))"
proof (induction rqs arbitrary: st)
  case Nil
  then show ?case by simp
next
  case (Cons rq rqs)
  obtain h code options where rq: "rq = (h, ''vnc'', code, options)"
    using Cons.prems by (cases rq) auto
  let ?st1 = "fst (executeCode h st ''vnc'' code options)"
  have nav: "getExecutionCount ?st1 ''navlambda'' = getExecutionCount st ''navlambda''"
    by (simp add: executeCode_getExecutionCount)
  have first: "returned_count (snd (executeCode h st ''vnc'' code options))
                 = Some (getExecutionCount st ''navlambda'' + 1)"
    by (simp add: executeCode_navlambda executeNavLambda_count getExecutionCount_update)
  have rest: "map returned_count (snd (run_calls ?st1 rqs))
                = replicate (length rqs) (Some (getExecutionCount ?st1 ''navlambda'' + 1))"
    using Cons.prems by (intro Cons.IH) simp
  show ?case
    unfolding rq run_calls_Cons using first rest nav by simp
qed

text \<open>
  C1 (per-language counters). The counter of the called language goes up by one with
  every call and no other counter changes (\<open>executeCode_counts\<close>, \<open>run_calls_counts\<close>). The
  claim's scenario fails on the count the Rust call returns: \<open>executeCode\<close> has already
  stored the new counter when \<open>executeRust\<close> reads it and adds one again, so on fresh
  services the calls Python, Rust, Python return the counts 1, 2, 2, where the claim says
  1, 1, 2. The Python service stamps its own counter, which is why its counts are right.
\<close>

theorem interleaved_rust_call_returns_two:
  "map returned_count (snd (run_calls new_services
      [(h1, ''python'', code1, options1), (h2, ''rust'', code2, options2),
       (h3, ''python'', code3, options3)]))
   = [Some 1, Some 2, Some 2]"
proof -
  define st1 where "st1 = fst (executeCode h1 new_services ''python'' code1 options1)"
  define st2 where "st2 = fst (executeCode h2 st1 ''rust'' code2 options2)"
  have n: "py_executionCount new_services = 0" "getExecutionCount new_services ''python'' = 0"
    "getExecutionCount new_services ''rust'' = 0"
    by (simp_all add: new_services_def getExecutionCount_def)
  have p1: "returned_count (snd (executeCode h1 new_services ''python'' code1 options1)) = Some 1"
    using executeCode_python_count [of h1 new_services code1 options1] by (simp add: n)
  have s1: "py_executionCount st1 = 1" "getExecutionCount st1 ''python'' = 1"
    "getExecutionCount st1 ''rust'' = 0"
    unfolding st1_def by (simp_all add: executeCode_python_state executeCode_getExecutionCount n)
  have p2: "returned_count (snd (executeCode h2 st1 ''rust'' code2 options2)) = Some 2"
    by (simp add: executeCode_rust_count s1)
  have s2: "py_executionCount st2 = 1" "getExecutionCount st2 ''python'' = 1"
    unfolding st2_def by (simp_all add: executeCode_rust_state executeCode_getExecutionCount s1)
  have p3: "returned_count (snd (executeCode h3 st2 ''python'' code3 options3)) = Some 2"
    using executeCode_python_count [of h3 st2 code3 options3] by (simp add: s2)
  have "map returned_count (snd (run_calls new_services
      [(h1, ''python'', code1, options1), (h2, ''rust'', code2, options2),
       (h3, ''python'', code3, options3)]))
     = [returned_count (snd (executeCode h1 new_services ''python'' code1 options1)),
        returned_count (snd (executeCode h2 st1 ''rust'' code2 options2)),
        returned_count (snd (executeCode h3 st2 ''python'' code3 options3))]"
    unfolding st1_def st2_def
    by (simp only: run_calls_Cons run_calls.simps(1) snd_conv fst_conv list.map)
  then show ?thesis
    by (simp only: p1 p2 p3)
qed

text \<open>
  C2 (failure, \<open>error\<close> field and error output go together). The claim fails for a
  JavaScript cell that throws: the \<open>catch\<close> block of \<open>executeJavaScript\<close> returns
  \<open>success\<close> false and one error output, and no \<open>error\<close> field. The \<open>catch\<close> blocks of the
  dispatcher and of the Python service do set the field.
\<close>

theorem javascript_failure_has_no_error_field:
  "snd (executeCode (offline_host (Threw (Value ''boom'' ''Error: boom'' ''Error: boom\<newline>    at eval'')))
         new_services ''javascript'' ''throw new Error('boom')'' no_options)
   = Inr \<lparr>r_success = False,
          r_outputs = [error_output ''JavaScriptError'' ''boom'' [''Error: boom\<newline>    at eval'']],
          r_execution_count = 2,
          r_error = None\<rparr>"
  by (simp add: executeCode_def dispatch_def executeJavaScript_def offline_host_def
      getExecutionCount_def new_services_def)

section \<open>The claims\<close>

text \<open>
  C3 (round trip of \<open>cellsToNotebook\<close> and \<open>notebookToCells\<close>). The claim says that a
  multi-line source survives the round trip. The code splits the source at the newlines
  when it writes the document and joins the fragments with no separator when it reads it
  back, so the newlines are lost: a code cell holding the two lines \<open>x = 1\<close> and \<open>print(x)\<close>
  comes back holding the single line \<open>x = 1print(x)\<close>, every other field unchanged. For every
  cell list the content that comes back is the content without its newlines
  (\<open>round_trip_content\<close>).
\<close>

theorem round_trip_drops_newlines:
  "notebookToCells (cellsToNotebook
     [\<lparr>i_id = ''c1'', i_type = TCode, i_language = ''python'',
       i_content = ''x = 1\<newline>print(x)'', i_executionCount = Some 1,
       i_outputs = Some [], i_metadata = Some empty_metadata\<rparr>] None)
   = [\<lparr>i_id = ''c1'', i_type = TCode, i_language = ''python'',
       i_content = ''x = 1print(x)'', i_executionCount = Some 1,
       i_outputs = Some [], i_metadata = Some empty_metadata\<rparr>]"
  by (simp add: notebookToCells_def cellsToNotebook_def cell_of_notebook_def
      notebook_cell_of_def split_str_def detectLanguage_def default_metadata_def empty_metadata_def)

text \<open>
  C4 (no throw passes the dispatcher). The claim fails for a JavaScript cell that throws
  an object whose \<open>message\<close> getter throws \<open>null\<close>: the \<open>catch\<close> block of \<open>executeJavaScript\<close>
  reads \<open>error.message\<close> and so throws \<open>null\<close> itself; the \<open>catch\<close> block of \<open>executeCode\<close>
  catches that \<open>null\<close>, reads \<open>error.message\<close> of it, and throws a \<open>TypeError\<close>. \<open>executeCode\<close>
  returns no result: its promise is rejected. For a caught value whose reads all return,
  the \<open>catch\<close> block does build the failed result (\<open>executeCode_caught\<close>).
\<close>

theorem executeCode_rejects_on_throwing_getter:
  "snd (executeCode
         (offline_host (Threw (Thrown (Inl (Nullish ''null'')) (Inr ''[object Object]'') (Inr []))))
         new_services ''javascript'' ''throw { get message() { throw null } }'' no_options)
   = Inl (type_error
         (offline_host (Threw (Thrown (Inl (Nullish ''null'')) (Inr ''[object Object]'') (Inr []))))
         ''null'' ''message'')"
  by (simp add: executeCode_def dispatch_def executeJavaScript_def offline_host_def Let_def)

text \<open>
  C5 (unsupported language). The claim says that an unrecognised language is rejected with
  a hard \<open>UnsupportedLanguage\<close> error before any counter moves. On the code, the call with
  the language \<open>cobol\<close> returns an ordinary failed result of kind \<open>ExecutionError\<close>, and the
  counter of \<open>cobol\<close> has gone from 0 to 1.
\<close>

theorem unsupported_language_is_counted:
  "snd (executeCode (offline_host (Completed [])) new_services ''cobol'' ''DISPLAY 1.'' no_options)
   = Inr \<lparr>r_success = False,
          r_outputs = [error_output ''ExecutionError'' ''Unsupported language: cobol''
                         [''Error: Unsupported language: cobol'']],
          r_execution_count = 1,
          r_error = Some \<lparr>ei_ename = ''ExecutionError'',
                           ei_evalue = ''Unsupported language: cobol'',
                           ei_traceback = [''Error: Unsupported language: cobol'']\<rparr>\<rparr>
   \<and> getExecutionCount new_services ''cobol'' = 0
   \<and> getExecutionCount (fst (executeCode (offline_host (Completed [])) new_services
         ''cobol'' ''DISPLAY 1.'' no_options)) ''cobol'' = 1"
  by (simp add: executeCode_def dispatch_def new_Error_def getExecutionCount_def new_services_def Let_def)

text \<open>
  C5, as amended: for every language outside the supported set, \<open>executeCode\<close> runs no
  backend (the outcome does not depend on the host, and the Python service's state is
  untouched), advances the counter of that language by one, and returns a result with
  \<open>success\<close> false, stamped with that counter, whose \<open>error\<close> field and only output are an
  \<open>ExecutionError\<close> with the message \<open>Unsupported language: \<close> followed by the language.
\<close>

theorem unsupported_language_result:
  assumes "language \<notin> set supported_languages"
  shows "executeCode h st language code options =
     (st\<lparr>executionCounts := (executionCounts st)(language \<mapsto> getExecutionCount st language + 1)\<rparr>,
      Inr \<lparr>r_success = False,
           r_outputs = [error_output ''ExecutionError'' (''Unsupported language: '' @ language)
                          [''Error: Unsupported language: '' @ language]],
           r_execution_count = getExecutionCount st language + 1,
           r_error = Some \<lparr>ei_ename = ''ExecutionError'',
                            ei_evalue = ''Unsupported language: '' @ language,
                            ei_traceback = [''Error: Unsupported language: '' @ language]\<rparr>\<rparr>)"
proof -
  have "dispatch h (st\<lparr>executionCounts :=
           (executionCounts st)(language \<mapsto> getExecutionCount st language + 1)\<rparr>) language code options
        = (st\<lparr>executionCounts := (executionCounts st)(language \<mapsto> getExecutionCount st language + 1)\<rparr>,
           Inl (new_Error h (''Unsupported language: '' @ language)))"
    using assms by (simp add: dispatch_def supported_languages_def)
  then show ?thesis
    by (simp add: executeCode_def Let_def new_Error_def)
qed

theorem unsupported_language_result_witness:
  "''cobol'' \<notin> set supported_languages
   \<and> r_execution_count (projr (snd (executeCode (offline_host (Completed [])) new_services
         ''cobol'' ''DISPLAY 1.'' no_options))) = 1
   \<and> py_executionCount (fst (executeCode (offline_host (Completed [])) new_services
         ''cobol'' ''DISPLAY 1.'' no_options)) = 0"
  using unsupported_language_result [of "''cobol''" "offline_host (Completed [])" new_services
      "''DISPLAY 1.''" no_options]
  by (simp add: supported_languages_def getExecutionCount_def new_services_def)

text \<open>
  C6 (parse failures). The claim as stated asks for \<open>UnsupportedVersion\<close> on every input
  whose \<open>nbformat\<close> is below 4, and for \<open>MalformedDocument\<close> on every input without a \<open>cells\<close>
  field. The code checks \<open>cells\<close> first: a document with \<open>nbformat\<close> 3 and no \<open>cells\<close> fails
  as \<open>MalformedDocument\<close>. And the input \<open>null\<close>, which has no \<open>cells\<close> field, fails with
  neither: reading \<open>cells\<close> of it raises a \<open>TypeError\<close>, whose message the error carries.
\<close>

theorem parse_nbformat3_without_cells_and_null:
  "parseNotebook (Parsed \<lparr>p_cells = CellsAbsent, p_metadata = None, p_nbformat = Some 3,
      p_nbformat_minor = Some 0\<rparr>) = Inl MalformedDocument
   \<and> MalformedDocument \<noteq> UnsupportedVersion
   \<and> parseNotebook ParsedNull \<noteq> Inl MalformedDocument
   \<and> parseNotebook ParsedNull \<noteq> Inl UnsupportedVersion"
  by (simp add: parseNotebook_def MalformedDocument_def UnsupportedVersion_def failed_to_parse_def
      null_cells_message_def)

text \<open>
  C6, as amended. Every failure of \<open>parseNotebook\<close> is an \<open>Error\<close> whose message starts with
  \<open>Failed to parse notebook: \<close>. For an input that parses to a value other than \<open>null\<close>:
  when its \<open>cells\<close> field is absent or not an array, the message goes on
  \<open>Invalid notebook format: missing cells array\<close> (\<open>MalformedDocument\<close>); when its \<open>cells\<close> field
  is an array and its \<open>nbformat\<close> is absent or below 4, the message goes on
  \<open>Unsupported notebook format version\<close> (\<open>UnsupportedVersion\<close>). For the input \<open>null\<close> the
  message goes on with the engine's message for reading \<open>cells\<close> of \<open>null\<close>, and for an input
  that is not JSON with the message of the syntax error.
\<close>

theorem parseNotebook_failures:
  "((p_cells nb = CellsAbsent \<or> (\<exists>v. p_cells nb = CellsValue v)) \<longrightarrow>
      parseNotebook (Parsed nb) = Inl MalformedDocument) \<and>
   ((\<exists>cs. p_cells nb = CellsArray cs) \<and>
    (p_nbformat nb = None \<or> (\<exists>n. p_nbformat nb = Some n \<and> n < 4)) \<longrightarrow>
      parseNotebook (Parsed nb) = Inl UnsupportedVersion) \<and>
   parseNotebook ParsedNull = Inl (''Failed to parse notebook: '' @ null_cells_message) \<and>
   parseNotebook (SyntaxError m) = Inl (''Failed to parse notebook: '' @ m)"
  by (cases "p_cells nb")
     (auto simp add: parseNotebook_def MalformedDocument_def UnsupportedVersion_def failed_to_parse_def)

theorem parseNotebook_failures_witness:
  "parseNotebook (Parsed \<lparr>p_cells = CellsValue (NStr ''none''), p_metadata = None,
      p_nbformat = Some 4, p_nbformat_minor = Some 4\<rparr>) = Inl MalformedDocument \<and>
   parseNotebook (Parsed \<lparr>p_cells = CellsAbsent, p_metadata = None,
      p_nbformat = Some 4, p_nbformat_minor = Some 4\<rparr>) = Inl MalformedDocument \<and>
   parseNotebook (Parsed \<lparr>p_cells = CellsArray [], p_metadata = None,
      p_nbformat = Some 3, p_nbformat_minor = Some 0\<rparr>) = Inl UnsupportedVersion"
  using parseNotebook_failures [of "\<lparr>p_cells = CellsValue (NStr ''none''), p_metadata = None,
      p_nbformat = Some 4, p_nbformat_minor = Some 4\<rparr>"]
    parseNotebook_failures [of "\<lparr>p_cells = CellsAbsent, p_metadata = None,
      p_nbformat = Some 4, p_nbformat_minor = Some 4\<rparr>"]
    parseNotebook_failures [of "\<lparr>p_cells = CellsArray [], p_metadata = None,
      p_nbformat = Some 3, p_nbformat_minor = Some 0\<rparr>"]
  by simp

text \<open>
  C7 (rendering selection). The claim as stated covers every output. \<open>formatOutput\<close> looks
  at the kind first: a \<open>stream\<close> output that carries both \<open>image/png\<close> and \<open>text/html\<close> data is
  rendered as its stream text, not as the image; and an \<open>error\<close> output with no data is
  rendered as its name and value, not as the empty string.
\<close>

theorem formatOutput_kind_before_data:
  "formatOutput \<lparr>o_output_type = Stream, o_execution_count = None,
       o_data = Some \<lparr>text_plain = None, text_html = Some (Text ''<b>hi</b>''),
                       image_png = Some ''iVBORw0KGgo='', image_jpeg = None,
                       image_svg_xml = None, application_json = None, other_mime = []\<rparr>,
       o_text = Some (Text ''hi''), o_name = Some Stdout, o_ename = None, o_evalue = None,
       o_traceback = None\<rparr>
     = \<lparr>f_type = DStream, f_content = ''hi'', f_mimeType = None\<rparr>
   \<and> formatOutput \<lparr>o_output_type = Error, o_execution_count = None, o_data = None,
       o_text = None, o_name = None, o_ename = Some ''ValueError'', o_evalue = Some ''bad'',
       o_traceback = Some []\<rparr>
     = \<lparr>f_type = DError, f_content = ''ValueError\<newline>bad'', f_mimeType = None\<rparr>"
  by (simp add: formatOutput_def)

text \<open>
  C7, as amended. \<open>formatOutput\<close> is a function: it returns one rendering for every output.
  An output of kind \<open>error\<close> is rendered as its name (\<open>Error\<close> when it has none), its value
  and the lines of its trace, joined by newlines, and an output of kind \<open>stream\<close> as its
  text, whatever data they carry. For an output of kind \<open>execute_result\<close> or \<open>display_data\<close>
  it returns the first representation present in the order \<open>image/png\<close>, \<open>image/jpeg\<close>,
  \<open>image/svg+xml\<close>, \<open>text/html\<close>, \<open>text/plain\<close>, and the empty text when none is present or
  there is no data; so with both \<open>image/png\<close> and \<open>text/html\<close> present it returns the image.
  A representation is present when it is truthy: a non-empty string, or an array of
  fragments.
\<close>

theorem formatOutput_preference:
  "(o_output_type out = Error \<longrightarrow>
      formatOutput out =
        \<lparr>f_type = DError,
         f_content = join ''\<newline>''
           ((if present_string (o_ename out) then the (o_ename out) else ''Error'')
            # (case o_evalue out of Some s \<Rightarrow> s | None \<Rightarrow> [])
            # (case o_traceback out of Some tb \<Rightarrow> tb | None \<Rightarrow> [])),
         f_mimeType = None\<rparr>) \<and>
   (o_output_type out = Stream \<longrightarrow>
      formatOutput out =
        \<lparr>f_type = DStream, f_content = text_content (o_text out), f_mimeType = None\<rparr>) \<and>
   (o_output_type out = Execute_result \<or> o_output_type out = Display_data \<longrightarrow>
      (o_data out = None \<longrightarrow>
         formatOutput out = \<lparr>f_type = DText, f_content = [], f_mimeType = None\<rparr>) \<and>
      (\<forall>d. o_data out = Some d \<longrightarrow>
         (present_string (image_png d) \<longrightarrow>
            formatOutput out = \<lparr>f_type = DImage, f_content = the (image_png d),
                                 f_mimeType = Some ''image/png''\<rparr>) \<and>
         (\<not> present_string (image_png d) \<and> present_string (image_jpeg d) \<longrightarrow>
            formatOutput out = \<lparr>f_type = DImage, f_content = the (image_jpeg d),
                                 f_mimeType = Some ''image/jpeg''\<rparr>) \<and>
         (\<not> present_string (image_png d) \<and> \<not> present_string (image_jpeg d)
            \<and> present_text (image_svg_xml d) \<longrightarrow>
            formatOutput out = \<lparr>f_type = DImage, f_content = text_content (image_svg_xml d),
                                 f_mimeType = Some ''image/svg+xml''\<rparr>) \<and>
         (\<not> present_string (image_png d) \<and> \<not> present_string (image_jpeg d)
            \<and> \<not> present_text (image_svg_xml d) \<and> present_text (text_html d) \<longrightarrow>
            formatOutput out = \<lparr>f_type = DHtml, f_content = text_content (text_html d),
                                 f_mimeType = None\<rparr>) \<and>
         (\<not> present_string (image_png d) \<and> \<not> present_string (image_jpeg d)
            \<and> \<not> present_text (image_svg_xml d) \<and> \<not> present_text (text_html d)
            \<and> present_text (text_plain d) \<longrightarrow>
            formatOutput out = \<lparr>f_type = DText, f_content = text_content (text_plain d),
                                 f_mimeType = None\<rparr>) \<and>
         (\<not> present_string (image_png d) \<and> \<not> present_string (image_jpeg d)
            \<and> \<not> present_text (image_svg_xml d) \<and> \<not> present_text (text_html d)
            \<and> \<not> present_text (text_plain d) \<longrightarrow>
            formatOutput out = \<lparr>f_type = DText, f_content = [], f_mimeType = None\<rparr>) \<and>
         (present_string (image_png d) \<and> present_text (text_html d) \<longrightarrow>
            f_type (formatOutput out) = DImage)))"
proof (intro conjI impI)
  assume "o_output_type out = Error"
  then show "formatOutput out =
        \<lparr>f_type = DError,
         f_content = join ''\<newline>''
           ((if present_string (o_ename out) then the (o_ename out) else ''Error'')
            # (case o_evalue out of Some s \<Rightarrow> s | None \<Rightarrow> [])
            # (case o_traceback out of Some tb \<Rightarrow> tb | None \<Rightarrow> [])),
         f_mimeType = None\<rparr>"
    by (cases "o_ename out") (simp_all add: formatOutput_def)
next
  assume "o_output_type out = Stream"
  then show "formatOutput out =
        \<lparr>f_type = DStream, f_content = text_content (o_text out), f_mimeType = None\<rparr>"
    by (simp add: formatOutput_def)
next
  assume "o_output_type out = Execute_result \<or> o_output_type out = Display_data"
    and "o_data out = None"
  then show "formatOutput out = \<lparr>f_type = DText, f_content = [], f_mimeType = None\<rparr>"
    by (auto simp add: formatOutput_def)
next
  assume k: "o_output_type out = Execute_result \<or> o_output_type out = Display_data"
  show "\<forall>d. o_data out = Some d \<longrightarrow>
         (present_string (image_png d) \<longrightarrow>
            formatOutput out = \<lparr>f_type = DImage, f_content = the (image_png d),
                                 f_mimeType = Some ''image/png''\<rparr>) \<and>
         (\<not> present_string (image_png d) \<and> present_string (image_jpeg d) \<longrightarrow>
            formatOutput out = \<lparr>f_type = DImage, f_content = the (image_jpeg d),
                                 f_mimeType = Some ''image/jpeg''\<rparr>) \<and>
         (\<not> present_string (image_png d) \<and> \<not> present_string (image_jpeg d)
            \<and> present_text (image_svg_xml d) \<longrightarrow>
            formatOutput out = \<lparr>f_type = DImage, f_content = text_content (image_svg_xml d),
                                 f_mimeType = Some ''image/svg+xml''\<rparr>) \<and>
         (\<not> present_string (image_png d) \<and> \<not> present_string (image_jpeg d)
            \<and> \<not> present_text (image_svg_xml d) \<and> present_text (text_html d) \<longrightarrow>
            formatOutput out = \<lparr>f_type = DHtml, f_content = text_content (text_html d),
                                 f_mimeType = None\<rparr>) \<and>
         (\<not> present_string (image_png d) \<and> \<not> present_string (image_jpeg d)
            \<and> \<not> present_text (image_svg_xml d) \<and> \<not> present_text (text_html d)
            \<and> present_text (text_plain d) \<longrightarrow>
            formatOutput out = \<lparr>f_type = DText, f_content = text_content (text_plain d),
                                 f_mimeType = None\<rparr>) \<and>
         (\<not> present_string (image_png d) \<and> \<not> present_string (image_jpeg d)
            \<and> \<not> present_text (image_svg_xml d) \<and> \<not> present_text (text_html d)
            \<and> \<not> present_text (text_plain d) \<longrightarrow>
            formatOutput out = \<lparr>f_type = DText, f_content = [], f_mimeType = None\<rparr>) \<and>
         (present_string (image_png d) \<and> present_text (text_html d) \<longrightarrow>
            f_type (formatOutput out) = DImage)"
    using k by (auto simp add: formatOutput_def format_data_def)
qed

theorem formatOutput_preference_witness:
  "formatOutput (display_output (no_data\<lparr>image_png := Some ''iVBORw0KGgo='',
       text_html := Some (Text ''<img/>''), text_plain := Some (Text ''<Figure>'')\<rparr>))
   = \<lparr>f_type = DImage, f_content = ''iVBORw0KGgo='', f_mimeType = Some ''image/png''\<rparr>
   \<and> formatOutput (result_output 1 (no_data\<lparr>text_html := Some (Lines [''<b>'', ''1</b>'']),
       text_plain := Some (Text ''1'')\<rparr>))
   = \<lparr>f_type = DHtml, f_content = ''<b>1</b>'', f_mimeType = None\<rparr>
   \<and> formatOutput (result_output 1 no_data)
   = \<lparr>f_type = DText, f_content = [], f_mimeType = None\<rparr>
   \<and> formatOutput (stream_output Stdout ''hi'')
   = \<lparr>f_type = DStream, f_content = ''hi'', f_mimeType = None\<rparr>
   \<and> formatOutput (error_output ''ValueError'' ''bad'' [''line 1''])
   = \<lparr>f_type = DError, f_content = ''ValueError\<newline>bad\<newline>line 1'', f_mimeType = None\<rparr>"
  using formatOutput_preference [of "display_output (no_data\<lparr>image_png := Some ''iVBORw0KGgo='',
       text_html := Some (Text ''<img/>''), text_plain := Some (Text ''<Figure>'')\<rparr>)"]
    formatOutput_preference [of "result_output 1 (no_data\<lparr>text_html := Some (Lines [''<b>'', ''1</b>'']),
       text_plain := Some (Text ''1'')\<rparr>)"]
    formatOutput_preference [of "result_output 1 no_data"]
    formatOutput_preference [of "stream_output Stdout ''hi''"]
    formatOutput_preference [of "error_output ''ValueError'' ''bad'' [''line 1'']"]
  by (simp add: display_output_def result_output_def no_data_def stream_output_def error_output_def)

text \<open>
  C8 (tabular formatter). With no rows both formatters return their no-rows message. With
  rows, the plain-text table is the header, the separator and one data row for each of
  the first 100 rows, joined by newlines, followed by the \<open>N more rows\<close> note exactly when
  there are more than 100 rows, \<open>N\<close> being the number of rows left out; the HTML table has
  the same cap and the same note. When no key and no entry holds a newline, the lines of
  the text are exactly these. With 150 rows there are 100 data rows and the note reads
  \<open>... (50 more rows)\<close>.
\<close>

theorem tabular_formatter_caps_rows:
  "(rows = [] \<longrightarrow>
      formatSQLTable h rows = ''No rows returned'' \<and>
      formatSQLTableHTML h rows = ''<div>No rows returned</div>'')
   \<and> (rows \<noteq> [] \<longrightarrow>
      length (sql_data_rows h rows) = min 100 (length rows) \<and>
      length (sql_html_rows h rows) = min 100 (length rows) \<and>
      formatSQLTable h rows =
        join ''\<newline>'' (join '' | '' (map fst (hd rows))
          # join '' | '' (map (\<lambda>k. ''---'') (map fst (hd rows)))
          # sql_data_rows h rows)
        @ (if 100 < length rows
           then ''\<newline>... ('' @ string_of_nat (length rows - 100) @ '' more rows)''
           else []) \<and>
      formatSQLTableHTML h rows =
        html_table_open @ ''<tr>''
        @ join [] (map (\<lambda>k. ''<th>'' @ k @ ''</th>'') (map fst (hd rows)))
        @ ''</tr></thead>\<newline>        <tbody>'' @ join [] (sql_html_rows h rows)
        @ ''</tbody>\<newline>      </table>\<newline>      ''
        @ (if 100 < length rows
           then ''<div>... ('' @ string_of_nat (length rows - 100) @ '' more rows)</div>''
           else [])
        @ ''\<newline>    '')
   \<and> (rows \<noteq> [] \<and>
        (\<forall>l \<in> set (join '' | '' (map fst (hd rows)) # sql_data_rows h rows).
           CHR ''\<newline>'' \<notin> set l) \<longrightarrow>
      split_str CHR ''\<newline>'' (formatSQLTable h rows) =
        join '' | '' (map fst (hd rows))
          # join '' | '' (map (\<lambda>k. ''---'') (map fst (hd rows)))
          # sql_data_rows h rows
          @ (if 100 < length rows
             then [''... ('' @ string_of_nat (length rows - 100) @ '' more rows)'']
             else []))
   \<and> (length rows = 150 \<longrightarrow>
      length (sql_data_rows h rows) = 100 \<and>
      formatSQLTable h rows =
        join ''\<newline>'' (join '' | '' (map fst (hd rows))
          # join '' | '' (map (\<lambda>k. ''---'') (map fst (hd rows)))
          # sql_data_rows h rows)
        @ ''\<newline>... (50 more rows)'')"
proof (intro conjI impI)
  assume "rows = []"
  then show "formatSQLTable h rows = ''No rows returned''"
    by (simp add: formatSQLTable_def)
next
  assume "rows = []"
  then show "formatSQLTableHTML h rows = ''<div>No rows returned</div>''"
    by (simp add: formatSQLTableHTML_def)
next
  show "length (sql_data_rows h rows) = min 100 (length rows)"
    by (rule length_sql_data_rows)
next
  show "length (sql_html_rows h rows) = min 100 (length rows)"
    by (rule length_sql_html_rows)
next
  assume "rows \<noteq> []"
  then show "formatSQLTable h rows =
        join ''\<newline>'' (join '' | '' (map fst (hd rows))
          # join '' | '' (map (\<lambda>k. ''---'') (map fst (hd rows)))
          # sql_data_rows h rows)
        @ (if 100 < length rows
           then ''\<newline>... ('' @ string_of_nat (length rows - 100) @ '' more rows)''
           else [])"
    by (rule formatSQLTable_text)
next
  assume "rows \<noteq> []"
  then show "formatSQLTableHTML h rows =
        html_table_open @ ''<tr>''
        @ join [] (map (\<lambda>k. ''<th>'' @ k @ ''</th>'') (map fst (hd rows)))
        @ ''</tr></thead>\<newline>        <tbody>'' @ join [] (sql_html_rows h rows)
        @ ''</tbody>\<newline>      </table>\<newline>      ''
        @ (if 100 < length rows
           then ''<div>... ('' @ string_of_nat (length rows - 100) @ '' more rows)</div>''
           else [])
        @ ''\<newline>    ''"
    by (simp add: formatSQLTableHTML_def Let_def del: map_map)
next
  assume "rows \<noteq> [] \<and>
        (\<forall>l \<in> set (join '' | '' (map fst (hd rows)) # sql_data_rows h rows).
           CHR ''\<newline>'' \<notin> set l)"
  then show "split_str CHR ''\<newline>'' (formatSQLTable h rows) =
        join '' | '' (map fst (hd rows))
          # join '' | '' (map (\<lambda>k. ''---'') (map fst (hd rows)))
          # sql_data_rows h rows
          @ (if 100 < length rows
             then [''... ('' @ string_of_nat (length rows - 100) @ '' more rows)'']
             else [])"
    using formatSQLTable_lines [of rows h] by blast
next
  assume "length rows = 150"
  then show "length (sql_data_rows h rows) = 100"
    by (simp add: length_sql_data_rows)
next
  assume n: "length rows = 150"
  then have "rows \<noteq> []" by auto
  then show "formatSQLTable h rows =
        join ''\<newline>'' (join '' | '' (map fst (hd rows))
          # join '' | '' (map (\<lambda>k. ''---'') (map fst (hd rows)))
          # sql_data_rows h rows)
        @ ''\<newline>... (50 more rows)''"
    using n by (simp add: formatSQLTable_text string_of_nat_50 del: map_map)
qed

theorem tabular_formatter_caps_rows_witness:
  "formatSQLTable (offline_host (Completed [])) [] = ''No rows returned''
   \<and> length (replicate 150 [(''id'', JStr ''7''), (''name'', JStr ''ada'')]) = 150
   \<and> split_str CHR ''\<newline>'' (formatSQLTable (offline_host (Completed []))
         (replicate 150 [(''id'', JStr ''7''), (''name'', JStr ''ada'')]))
       = ''id | name'' # ''--- | ---'' # replicate 100 ''7 | ada'' @ [''... (50 more rows)'']"
proof -
  let ?h = "offline_host (Completed [])"
  let ?rows = "replicate 150 [(''id'', JStr ''7''), (''name'', JStr ''ada'')]"
  have d: "sql_data_rows ?h ?rows = replicate 100 ''7 | ada''"
    by (simp add: sql_data_rows_def entry_text_def)
  have k: "join '' | '' (map fst (hd ?rows)) = ''id | name''"
    "join '' | '' (map (\<lambda>k. ''---'') (map fst (hd ?rows))) = ''--- | ---''"
    by simp_all
  have p: "?rows \<noteq> [] \<and>
        (\<forall>l \<in> set (join '' | '' (map fst (hd ?rows)) # sql_data_rows ?h ?rows).
           CHR ''\<newline>'' \<notin> set l)"
    unfolding d k by simp
  have "split_str CHR ''\<newline>'' (formatSQLTable ?h ?rows) =
        join '' | '' (map fst (hd ?rows))
          # join '' | '' (map (\<lambda>k. ''---'') (map fst (hd ?rows)))
          # sql_data_rows ?h ?rows
          @ (if 100 < length ?rows
             then [''... ('' @ string_of_nat (length ?rows - 100) @ '' more rows)'']
             else [])"
    using tabular_formatter_caps_rows [of ?rows ?h] p by blast
  then have "split_str CHR ''\<newline>'' (formatSQLTable ?h ?rows) =
       ''id | name'' # ''--- | ---'' # replicate 100 ''7 | ada'' @ [''... (50 more rows)'']"
    unfolding d k by (simp add: string_of_nat_50)
  moreover have "formatSQLTable ?h [] = ''No rows returned''"
    using tabular_formatter_caps_rows [of "[]" ?h] by blast
  ultimately show ?thesis
    by simp
qed

text \<open>
  C9 (source normalisation on load). A document that passes the two checks is returned
  with every cell's source replaced by one string: the concatenation of the fragments,
  nothing inserted between them, when the source was an array; the string itself when it
  was a string. \<open>normalizeSource\<close> does the same to a single source.
\<close>

theorem source_normalized_on_load:
  assumes "p_cells nb = CellsArray cs" and "\<not> version_unsupported (p_nbformat nb)"
  shows "parseNotebook (Parsed nb) =
           Inr (nb\<lparr>p_cells := CellsArray (map (\<lambda>c. c\<lparr>c_source := Some (Text
              (case c_source c of Some (Lines ls) \<Rightarrow> concat ls | Some (Text s) \<Rightarrow> s | None \<Rightarrow> []))\<rparr>) cs)\<rparr>)
         \<and> (\<forall>ls. normalizeSource (Some (Lines ls)) = concat ls)
         \<and> (\<forall>s. normalizeSource (Some (Text s)) = s)"
  using assms
  by (simp add: parseNotebook_def normalize_cell_def normalizeSource_concat join_empty_sep)

theorem source_normalized_on_load_witness:
  "parseNotebook (Parsed \<lparr>p_cells = CellsArray
       [\<lparr>c_cell_type = Code, c_execution_count = None, c_id = Some ''a'', c_metadata = None,
         c_source = Some (Lines [''import os\<newline>'', ''x = 1\<newline>'', ''print(x)'']),
         c_outputs = Some []\<rparr>,
        \<lparr>c_cell_type = Markdown, c_execution_count = None, c_id = Some ''b'', c_metadata = None,
         c_source = Some (Text ''# Title''), c_outputs = None\<rparr>],
      p_metadata = None, p_nbformat = Some 4, p_nbformat_minor = Some 4\<rparr>)
   = Inr \<lparr>p_cells = CellsArray
       [\<lparr>c_cell_type = Code, c_execution_count = None, c_id = Some ''a'', c_metadata = None,
         c_source = Some (Text ''import os\<newline>x = 1\<newline>print(x)''),
         c_outputs = Some []\<rparr>,
        \<lparr>c_cell_type = Markdown, c_execution_count = None, c_id = Some ''b'', c_metadata = None,
         c_source = Some (Text ''# Title''), c_outputs = None\<rparr>],
      p_metadata = None, p_nbformat = Some 4, p_nbformat_minor = Some 4\<rparr>"
  using source_normalized_on_load [of
      "\<lparr>p_cells = CellsArray
       [\<lparr>c_cell_type = Code, c_execution_count = None, c_id = Some ''a'', c_metadata = None,
         c_source = Some (Lines [''import os\<newline>'', ''x = 1\<newline>'', ''print(x)'']),
         c_outputs = Some []\<rparr>,
        \<lparr>c_cell_type = Markdown, c_execution_count = None, c_id = Some ''b'', c_metadata = None,
         c_source = Some (Text ''# Title''), c_outputs = None\<rparr>],
      p_metadata = None, p_nbformat = Some 4, p_nbformat_minor = Some 4\<rparr>"
      "[\<lparr>c_cell_type = Code, c_execution_count = None, c_id = Some ''a'', c_metadata = None,
         c_source = Some (Lines [''import os\<newline>'', ''x = 1\<newline>'', ''print(x)'']),
         c_outputs = Some []\<rparr>,
        \<lparr>c_cell_type = Markdown, c_execution_count = None, c_id = Some ''b'', c_metadata = None,
         c_source = Some (Text ''# Title''), c_outputs = None\<rparr>]"]
  by simp

text \<open>
  C10 (the two tags of the domain-specific language). A call with the tag \<open>navlambda\<close> or
  \<open>vnc\<close> returns the count that \<open>executeNavLambda\<close> computes: the \<open>navlambda\<close> counter, as it
  stands once the dispatcher has advanced the counter of the call's own tag, plus one; and
  only the counter of the call's own tag changes. So in any sequence of calls that all use
  the tag \<open>vnc\<close> every call returns the same count, the \<open>navlambda\<close> counter at the start
  plus one, while the \<open>vnc\<close> counter goes up by the number of calls and the \<open>navlambda\<close>
  counter stays where it was.
\<close>

theorem vnc_count_does_not_advance:
  "((language = ''navlambda'' \<or> language = ''vnc'') \<longrightarrow>
      returned_count (snd (executeCode h st language code options))
        = Some (getExecutionCount (fst (executeCode h st language code options)) ''navlambda'' + 1)
      \<and> executionCounts (fst (executeCode h st language code options))
        = (executionCounts st)(language \<mapsto> getExecutionCount st language + 1))
   \<and> ((\<forall>rq \<in> set rqs. fst (snd rq) = ''vnc'') \<longrightarrow>
      map returned_count (snd (run_calls st rqs))
        = replicate (length rqs) (Some (getExecutionCount st ''navlambda'' + 1))
      \<and> getExecutionCount (fst (run_calls st rqs)) ''vnc''
        = getExecutionCount st ''vnc'' + length rqs
      \<and> getExecutionCount (fst (run_calls st rqs)) ''navlambda''
        = getExecutionCount st ''navlambda'')"
proof (intro conjI impI)
  assume l: "language = ''navlambda'' \<or> language = ''vnc''"
  show "returned_count (snd (executeCode h st language code options))
        = Some (getExecutionCount (fst (executeCode h st language code options)) ''navlambda'' + 1)"
    by (simp add: executeCode_navlambda [OF l] executeNavLambda_count)
next
  show "executionCounts (fst (executeCode h st language code options))
        = (executionCounts st)(language \<mapsto> getExecutionCount st language + 1)"
    by (rule executeCode_counts)
next
  assume "\<forall>rq \<in> set rqs. fst (snd rq) = ''vnc''"
  then show "map returned_count (snd (run_calls st rqs))
        = replicate (length rqs) (Some (getExecutionCount st ''navlambda'' + 1))"
    by (rule vnc_calls_counts)
next
  assume v: "\<forall>rq \<in> set rqs. fst (snd rq) = ''vnc''"
  then have "filter (\<lambda>rq. fst (snd rq) = ''vnc'') rqs = rqs"
    by (simp add: filter_id_conv)
  then show "getExecutionCount (fst (run_calls st rqs)) ''vnc'' = getExecutionCount st ''vnc'' + length rqs"
    by (simp add: run_calls_counts)
next
  assume v: "\<forall>rq \<in> set rqs. fst (snd rq) = ''vnc''"
  then have "filter (\<lambda>rq. fst (snd rq) = ''navlambda'') rqs = []"
    by (auto simp add: filter_empty_conv)
  then show "getExecutionCount (fst (run_calls st rqs)) ''navlambda'' = getExecutionCount st ''navlambda''"
    by (simp add: run_calls_counts)
qed

theorem vnc_count_does_not_advance_witness:
  "map returned_count (snd (run_calls new_services
      [(offline_host (Completed []), ''vnc'', ''a'', no_options),
       (offline_host (Completed []), ''vnc'', ''b'', no_options),
       (offline_host (Completed []), ''vnc'', ''c'', no_options)]))
     = [Some 1, Some 1, Some 1]
   \<and> getExecutionCount (fst (run_calls new_services
      [(offline_host (Completed []), ''vnc'', ''a'', no_options),
       (offline_host (Completed []), ''vnc'', ''b'', no_options),
       (offline_host (Completed []), ''vnc'', ''c'', no_options)])) ''vnc'' = 3
   \<and> returned_count (snd (executeCode (offline_host (Completed [])) new_services
         ''navlambda'' ''a'' no_options)) = Some 2"
proof -
  have n: "getExecutionCount new_services ''navlambda'' = 0" "getExecutionCount new_services ''vnc'' = 0"
    by (simp_all add: new_services_def getExecutionCount_def)
  have c: "getExecutionCount (fst (executeCode (offline_host (Completed [])) new_services
         ''navlambda'' ''a'' no_options)) ''navlambda'' = 1"
    by (simp add: executeCode_getExecutionCount n)
  show ?thesis
    using vnc_count_does_not_advance [of "''navlambda''" "offline_host (Completed [])" new_services
        "''a''" no_options
        "[(offline_host (Completed []), ''vnc'', ''a'', no_options),
          (offline_host (Completed []), ''vnc'', ''b'', no_options),
          (offline_host (Completed []), ''vnc'', ''c'', no_options)]"]
    by (simp add: n c numeral_3_eq_3)
qed

end
